theory Spec2Isabelle
  imports Complex_Main "HOL-Library.Product_Lexorder"
begin

section \<open>Conventions of the embedding\<close>

text \<open>
  The development embeds two services of the trading backend:
  \<^item> \<^verbatim>\<open>services/portfolio_risk_service.py\<close> (class \<^verbatim>\<open>PortfolioRiskService\<close>), and
  \<^item> \<^verbatim>\<open>services/auto_rebalancer.py\<close> (class \<^verbatim>\<open>AutoPortfolioRebalancer\<close>).

  Python \<^verbatim>\<open>float\<close> and \<^verbatim>\<open>Decimal\<close> figures are modelled as \<^typ>\<open>real\<close>: comparisons and
  branch structure are those of the source, rounding is not modelled. Python \<^verbatim>\<open>int\<close> is
  \<^typ>\<open>int\<close>. An attribute that may be \<^verbatim>\<open>None\<close> has an option type. Strings produced by
  f-string formatting are modelled as constructors that carry the formatted values.
  A raised exception is a value of \<open>py_error\<close>.
\<close>

datatype py_error =
    ZeroDivisionError
  | TypeError
  | ValueError string
  | CallbackError string

text \<open>Python's \<^verbatim>\<open>a / b\<close> on floats raises \<^verbatim>\<open>ZeroDivisionError\<close> when \<^verbatim>\<open>b == 0\<close>.\<close>

definition truediv :: "real \<Rightarrow> real \<Rightarrow> py_error + real" where
  "truediv a b = (if b = 0 then Inl ZeroDivisionError else Inr (a / b))"

text \<open>\<^verbatim>\<open>x or 0\<close> on an optional number: \<^verbatim>\<open>None\<close> and \<^verbatim>\<open>0\<close> both give \<^verbatim>\<open>0\<close>.\<close>

definition or0 :: "real option \<Rightarrow> real" where
  "or0 x = (case x of None \<Rightarrow> 0 | Some v \<Rightarrow> v)"

text \<open>\<^verbatim>\<open>x or d\<close>: the default replaces \<^verbatim>\<open>None\<close> and the falsy number \<^verbatim>\<open>0\<close>.\<close>

definition or_else :: "real option \<Rightarrow> real \<Rightarrow> real" where
  "or_else x d = (case x of None \<Rightarrow> d | Some v \<Rightarrow> if v = 0 then d else v)"

section \<open>Portfolio risk service\<close>

subsection \<open>Data model\<close>

datatype PositionAction = HOLD | REDUCE | EXIT | ADD | REALLOCATE

datatype RiskLevel = LOW | MODERATE | HIGH | CRITICAL

text \<open>The \<^verbatim>\<open>.value\<close> strings of the two enums.\<close>

fun action_value :: "PositionAction \<Rightarrow> string" where
  "action_value HOLD = ''hold''"
| "action_value REDUCE = ''reduce''"
| "action_value EXIT = ''exit''"
| "action_value ADD = ''add''"
| "action_value REALLOCATE = ''reallocate''"

fun risk_value :: "RiskLevel \<Rightarrow> string" where
  "risk_value LOW = ''low''"
| "risk_value MODERATE = ''moderate''"
| "risk_value HIGH = ''high''"
| "risk_value CRITICAL = ''critical''"

text \<open>
  The order of the risk levels, LOW < MODERATE < HIGH < CRITICAL, which is also the order
  in which the enum declares its members.
\<close>

fun risk_rank :: "RiskLevel \<Rightarrow> nat" where
  "risk_rank LOW = 0"
| "risk_rank MODERATE = 1"
| "risk_rank HIGH = 2"
| "risk_rank CRITICAL = 3"

text \<open>
  A row of the position store, as the two services read it: \<^verbatim>\<open>quantity\<close>,
  \<^verbatim>\<open>average_entry_price\<close> and \<^verbatim>\<open>current_price\<close> may be \<^verbatim>\<open>None\<close>; \<open>pos_ticker\<close> is
  \<^verbatim>\<open>position.symbol.ticker\<close>, \<open>None\<close> when the row has no \<^verbatim>\<open>symbol\<close>.
\<close>

record position =
  pos_quantity :: "real option"
  pos_average_entry_price :: "real option"
  pos_current_price :: "real option"
  pos_ticker :: "string option"
  pos_symbol_id :: int

record account =
  acct_balance :: "real option"

text \<open>The symbol name of an assessment: the ticker, or \<^verbatim>\<open>f"ID:{position.symbol_id}"\<close>.\<close>

datatype symbol_name = Ticker string | SymbolId int

text \<open>The reason texts; each constructor carries the values its f-string formats.\<close>

datatype reason_text =
    StopLossTriggered real real
  | TakeProfitOpportunity real real
  | TooConcentrated real real
  | CriticalRiskLevel
  | HighRiskLevel
  | WithinParameters
  | CashPosition real

record PositionRiskAssessment =
  pra_symbol :: symbol_name
  pra_symbol_id :: int
  pra_quantity :: real
  pra_entry_price :: real
  pra_current_price :: real
  market_value :: real
  unrealized_pnl :: real
  unrealized_pnl_pct :: real
  risk_level :: RiskLevel
  volatility_score :: real
  concentration_risk :: real
  drawdown_from_high :: real
  days_held :: int
  recommended_action :: PositionAction
  action_reason :: reason_text
  target_allocation :: real
  stop_loss_price :: real
  take_profit_price :: real
  confidence_score :: real

text \<open>An entry of \<^verbatim>\<open>suggested_actions\<close> (a dict in the source).\<close>

record suggestion =
  sg_priority :: nat
  sg_symbol :: "symbol_name option"
  sg_action :: string
  sg_reason :: reason_text
  sg_current_value :: real
  sg_pnl_pct :: real
  sg_risk_level :: string

record PortfolioRiskAssessment =
  account_id :: string
  total_value :: real
  cash_available :: real
  invested_value :: real
  total_unrealized_pnl :: real
  overall_risk_level :: RiskLevel
  diversification_score :: real
  concentration_warning :: bool
  max_position_concentration :: real
  correlation_risk :: real
  positions :: "PositionRiskAssessment list"
  rebalance_needed :: bool
  capital_at_risk :: real
  suggested_actions :: "suggestion list"

text \<open>The configurable thresholds that \<^verbatim>\<open>__init__\<close> stores on the service.\<close>

record PortfolioRiskService =
  svc_max_position_concentration :: real
  stop_loss_threshold :: real
  take_profit_threshold :: real
  high_volatility_threshold :: real

definition init_service :: PortfolioRiskService where
  "init_service =
     \<lparr>svc_max_position_concentration = 25 / 100,
      stop_loss_threshold = - (10 / 100),
      take_profit_threshold = 20 / 100,
      high_volatility_threshold = 70\<rparr>"

subsection \<open>Position assessment\<close>

definition calculate_risk_level :: "real \<Rightarrow> real \<Rightarrow> RiskLevel" where
  "calculate_risk_level pnl_pct concentration =
     (if pnl_pct < - 20 then CRITICAL
      else if pnl_pct < - 10 then HIGH
      else if concentration > 40 then HIGH
      else if concentration > 25 then MODERATE
      else if pnl_pct > 30 then MODERATE
      else LOW)"

definition determine_action ::
  "PortfolioRiskService \<Rightarrow> real \<Rightarrow> real \<Rightarrow> RiskLevel \<Rightarrow> PositionAction \<times> reason_text" where
  "determine_action self pnl_pct concentration rl =
     (if pnl_pct < stop_loss_threshold self * 100
        then (EXIT, StopLossTriggered pnl_pct (stop_loss_threshold self * 100))
      else if pnl_pct > take_profit_threshold self * 100
        then (REDUCE, TakeProfitOpportunity pnl_pct (take_profit_threshold self * 100))
      else if concentration > svc_max_position_concentration self * 100
        then (REDUCE, TooConcentrated concentration (svc_max_position_concentration self * 100))
      else if rl = CRITICAL then (EXIT, CriticalRiskLevel)
      else if rl = HIGH then (REDUCE, HighRiskLevel)
      else (HOLD, WithinParameters))"

text \<open>The three figures \<^verbatim>\<open>_assess_position\<close> reads off the row.\<close>

definition quantity_of :: "position \<Rightarrow> real" where
  "quantity_of p = or0 (pos_quantity p)"

definition entry_price_of :: "position \<Rightarrow> real" where
  "entry_price_of p = or0 (pos_average_entry_price p)"

definition current_price_of :: "position \<Rightarrow> real" where
  "current_price_of p = or_else (pos_current_price p) (entry_price_of p)"

definition cost_basis_of :: "position \<Rightarrow> real" where
  "cost_basis_of p = quantity_of p * entry_price_of p"

text \<open>
  \<^verbatim>\<open>_assess_position\<close>. Both divisions sit under a guard on their divisor; the model
  keeps the division fallible, so that the guards are what rules the fault out.
\<close>

definition assess_position ::
  "PortfolioRiskService \<Rightarrow> position \<Rightarrow> real \<Rightarrow> py_error + PositionRiskAssessment" where
  "assess_position self p total_portfolio_value =
     (let quantity = quantity_of p;
          entry_price = entry_price_of p;
          current_price = current_price_of p;
          mv = quantity * current_price;
          cost_basis = cost_basis_of p;
          pnl = mv - cost_basis
      in case (if cost_basis > 0
               then (case truediv pnl cost_basis of Inl e \<Rightarrow> Inl e | Inr q \<Rightarrow> Inr (q * 100))
               else Inr 0) of
           Inl e \<Rightarrow> Inl e
         | Inr pnl_pct \<Rightarrow>
        (case (if total_portfolio_value > 0
               then (case truediv mv total_portfolio_value of
                       Inl e \<Rightarrow> Inl e | Inr q \<Rightarrow> Inr (q * 100))
               else Inr 0) of
           Inl e \<Rightarrow> Inl e
         | Inr concentration \<Rightarrow>
             (let rl = calculate_risk_level pnl_pct concentration;
                  ar = determine_action self pnl_pct concentration rl
              in Inr \<lparr>pra_symbol = (case pos_ticker p of
                                      Some t \<Rightarrow> Ticker t
                                    | None \<Rightarrow> SymbolId (pos_symbol_id p)),
                      pra_symbol_id = pos_symbol_id p,
                      pra_quantity = quantity,
                      pra_entry_price = entry_price,
                      pra_current_price = current_price,
                      market_value = mv,
                      unrealized_pnl = pnl,
                      unrealized_pnl_pct = pnl_pct,
                      risk_level = rl,
                      volatility_score = 0,
                      concentration_risk = concentration,
                      drawdown_from_high = 0,
                      days_held = 0,
                      recommended_action = fst ar,
                      action_reason = snd ar,
                      target_allocation =
                        min concentration (svc_max_position_concentration self * 100),
                      stop_loss_price = entry_price * (1 + stop_loss_threshold self),
                      take_profit_price = entry_price * (1 + take_profit_threshold self),
                      confidence_score = 7 / 10\<rparr>)))"

subsection \<open>Portfolio assessment\<close>

text \<open>\<^verbatim>\<open>max(concentrations) if concentrations else 0\<close>.\<close>

definition max_or_zero :: "real list \<Rightarrow> real" where
  "max_or_zero cs = (case cs of [] \<Rightarrow> 0 | c # rest \<Rightarrow> fold max rest c)"

definition risk_count :: "PositionRiskAssessment list \<Rightarrow> RiskLevel \<Rightarrow> nat" where
  "risk_count ps lvl = length (filter (\<lambda>p. risk_level p = lvl) ps)"

text \<open>
  \<^verbatim>\<open>_analyze_portfolio_composition\<close> updates the assessment in place; the model returns
  the updated record. With no positions it sets two fields and returns early.
\<close>

definition analyze_portfolio_composition ::
  "PortfolioRiskService \<Rightarrow> PortfolioRiskAssessment \<Rightarrow> PortfolioRiskAssessment" where
  "analyze_portfolio_composition self a =
     (if positions a = []
      then a\<lparr>diversification_score := 100, overall_risk_level := LOW\<rparr>
      else
        let num_positions = length (positions a);
            score = (if num_positions \<ge> 10 then 90
                     else if num_positions \<ge> 5 then 70
                     else if num_positions \<ge> 3 then 50
                     else 30);
            mx = max_or_zero (map concentration_risk (positions a));
            warn = (mx > svc_max_position_concentration self * 100);
            overall =
              (if risk_count (positions a) CRITICAL > 0 then CRITICAL
               else if real (risk_count (positions a) HIGH) > real num_positions * (3 / 10)
                 then HIGH
               else if real (risk_count (positions a) MODERATE) > real num_positions * (5 / 10)
                 then MODERATE
               else LOW);
            actions_needed = filter (\<lambda>p. recommended_action p \<noteq> HOLD) (positions a)
        in a\<lparr>diversification_score := (if warn then score - 20 else score),
              max_position_concentration := mx,
              concentration_warning := (if warn then True else concentration_warning a),
              overall_risk_level := overall,
              rebalance_needed := (length actions_needed > 0),
              capital_at_risk :=
                sum_list (map (\<lambda>p. \<bar>unrealized_pnl p\<bar>)
                            (filter (\<lambda>p. unrealized_pnl p < 0) (positions a)))\<rparr>)"

fun priority_order :: "PositionAction \<Rightarrow> nat" where
  "priority_order EXIT = 1"
| "priority_order REDUCE = 2"
| "priority_order REALLOCATE = 3"
| "priority_order ADD = 4"
| "priority_order HOLD = 5"

definition position_suggestion :: "nat \<times> PositionRiskAssessment \<Rightarrow> suggestion" where
  "position_suggestion ip =
     \<lparr>sg_priority = fst ip + 1,
      sg_symbol = Some (pra_symbol (snd ip)),
      sg_action = action_value (recommended_action (snd ip)),
      sg_reason = action_reason (snd ip),
      sg_current_value = market_value (snd ip),
      sg_pnl_pct = unrealized_pnl_pct (snd ip),
      sg_risk_level = risk_value (risk_level (snd ip))\<rparr>"

definition deploy_cash_suggestion :: "nat \<Rightarrow> real \<Rightarrow> real \<Rightarrow> suggestion" where
  "deploy_cash_suggestion n cash_pct cash =
     \<lparr>sg_priority = n + 1,
      sg_symbol = None,
      sg_action = ''deploy_cash'',
      sg_reason = CashPosition cash_pct,
      sg_current_value = cash,
      sg_pnl_pct = 0,
      sg_risk_level = ''low''\<rparr>"

text \<open>
  \<^verbatim>\<open>_generate_recommendations\<close>. Python's \<^verbatim>\<open>sorted\<close> is stable, as \<open>sort_key\<close> is; the key
  is the pair (priority, \<open>- |pnl_pct|\<close>) in lexicographic order.
\<close>

definition generate_recommendations ::
  "PortfolioRiskAssessment \<Rightarrow> py_error + PortfolioRiskAssessment" where
  "generate_recommendations a =
     (let sorted_positions =
            sort_key (\<lambda>p. (priority_order (recommended_action p), - \<bar>unrealized_pnl_pct p\<bar>))
              (positions a);
          suggestions =
            map position_suggestion
              (filter (\<lambda>ip. recommended_action (snd ip) \<noteq> HOLD) (enumerate 0 sorted_positions))
      in case (if total_value a > 0
               then (case truediv (cash_available a) (total_value a) of
                       Inl e \<Rightarrow> Inl e | Inr q \<Rightarrow> Inr (q * 100))
               else Inr 0) of
           Inl e \<Rightarrow> Inl e
         | Inr cash_pct \<Rightarrow>
             Inr (a\<lparr>suggested_actions :=
                      (if cash_pct > 30
                       then suggestions @
                              [deploy_cash_suggestion (length suggestions) cash_pct
                                 (cash_available a)]
                       else suggestions)\<rparr>))"

text \<open>
  The loop of \<^verbatim>\<open>assess_portfolio_risk\<close> over the rows: a row is assessed when its
  quantity is truthy and positive, and skipped otherwise; an exception stops the loop.
\<close>

fun assess_positions ::
  "PortfolioRiskService \<Rightarrow> position list \<Rightarrow> real \<Rightarrow> py_error + PositionRiskAssessment list"
where
  "assess_positions self [] tv = Inr []"
| "assess_positions self (p # ps) tv =
     (if (case pos_quantity p of None \<Rightarrow> False | Some q \<Rightarrow> q \<noteq> 0 \<and> q > 0)
      then (case assess_position self p tv of
              Inl e \<Rightarrow> Inl e
            | Inr a \<Rightarrow> (case assess_positions self ps tv of
                          Inl e \<Rightarrow> Inl e
                        | Inr as \<Rightarrow> Inr (a # as)))
      else assess_positions self ps tv)"

text \<open>
  \<^verbatim>\<open>assess_portfolio_risk\<close>. The account and the rows are what the account and position
  stores return for \<open>acc_id\<close>; a missing account raises \<^verbatim>\<open>ValueError\<close>.
\<close>

definition assess_portfolio_risk ::
  "PortfolioRiskService \<Rightarrow> string \<Rightarrow> account option \<Rightarrow> position list
   \<Rightarrow> py_error + PortfolioRiskAssessment" where
  "assess_portfolio_risk self acc_id acct rows =
     (case acct of
        None \<Rightarrow> Inl (ValueError acc_id)
      | Some ac \<Rightarrow>
          (let total_invested = sum_list (map (\<lambda>p. quantity_of p * current_price_of p) rows);
               cash = or0 (acct_balance ac);
               tv = total_invested + cash
           in case assess_positions self rows tv of
                Inl e \<Rightarrow> Inl e
              | Inr position_assessments \<Rightarrow>
                  generate_recommendations
                    (analyze_portfolio_composition self
                       \<lparr>account_id = acc_id,
                        total_value = tv,
                        cash_available = cash,
                        invested_value = total_invested,
                        total_unrealized_pnl = sum_list (map unrealized_pnl position_assessments),
                        overall_risk_level = MODERATE,
                        diversification_score = 0,
                        concentration_warning = False,
                        max_position_concentration = 0,
                        correlation_risk = 0,
                        positions = position_assessments,
                        rebalance_needed = False,
                        capital_at_risk = 0,
                        suggested_actions = []\<rparr>)))"

section \<open>Auto rebalancer\<close>

subsection \<open>Data model\<close>

datatype RebalanceAction = BUY | SELL | SELL_ALL | NO_ACTION

text \<open>
  Modelled from the spec: the module \<^verbatim>\<open>services/continuous_monitor.py\<close>, which declares
  \<^verbatim>\<open>AlertType\<close>, \<^verbatim>\<open>ActionUrgency\<close> and \<^verbatim>\<open>Alert\<close>, is not among the sources. The spec lists
  five alert types, four urgency tiers (IMMEDIATE > HIGH > MEDIUM > LOW) and the fields
  of an alert (type, urgency, optional symbol, title, message, numeric data payload).
  The urgency tiers HIGH and LOW carry a prefix, the risk levels own the plain names.
\<close>

datatype AlertType = STOP_LOSS_HIT | TAKE_PROFIT | CONCENTRATION | RISK_THRESHOLD | IDLE_CAPITAL

datatype ActionUrgency = IMMEDIATE | URGENCY_HIGH | MEDIUM | URGENCY_LOW

record Alert =
  alert_type :: AlertType
  urgency :: ActionUrgency
  alert_symbol :: "string option"
  title :: string
  message :: string
  data :: "string \<Rightarrow> real option"

text \<open>
  A \<^verbatim>\<open>datetime\<close> is a count of microseconds of local wall-clock time; its \<^verbatim>\<open>date()\<close> is
  the number of whole days in it.
\<close>

type_synonym datetime = int

definition date_of :: "datetime \<Rightarrow> int" where
  "date_of t = t div 86400000000"

text \<open>\<^verbatim>\<open>(a - b).total_seconds() / 60\<close>.\<close>

definition minutes_between :: "datetime \<Rightarrow> datetime \<Rightarrow> real" where
  "minutes_between a b = real_of_int (a - b) / 1000000 / 60"

text \<open>The reasons the handlers pass to \<^verbatim>\<open>_execute_trade\<close>, with their formatted figures.\<close>

datatype trade_reason =
    StopLossAt real
  | ReducingExposure real
  | TakingProfits real
  | ReducingConcentration real real
  | CriticalRiskExceeded

record TradeExecution =
  timestamp :: datetime
  te_symbol :: string
  te_action :: RebalanceAction
  te_quantity :: real
  te_price :: real
  te_total_value :: real
  te_reason :: trade_reason
  te_alert_type :: "AlertType option"
  success :: bool
  error :: "string option"

record RebalanceConfig =
  enabled :: bool
  dry_run :: bool
  max_daily_trades :: int
  max_single_trade_pct :: real
  min_trade_value :: real
  cooldown_minutes :: int
  auto_exit_loss_pct :: real
  auto_reduce_gain_pct :: real
  auto_reduce_concentration_pct :: real
  target_position_pct :: real
  max_position_pct :: real
  act_on_immediate :: bool
  act_on_high :: bool
  act_on_medium :: bool
  act_on_low :: bool

text \<open>The field defaults of the \<^verbatim>\<open>RebalanceConfig\<close> dataclass.\<close>

definition default_config :: RebalanceConfig where
  "default_config =
     \<lparr>enabled = True, dry_run = True,
      max_daily_trades = 10, max_single_trade_pct = 25, min_trade_value = 100,
      cooldown_minutes = 15,
      auto_exit_loss_pct = - 15, auto_reduce_gain_pct = 30,
      auto_reduce_concentration_pct = 30,
      target_position_pct = 5, max_position_pct = 10,
      act_on_immediate = True, act_on_high = True,
      act_on_medium = False, act_on_low = False\<rparr>"

text \<open>
  The rebalancer object. The callback \<open>on_trade\<close> is a function that tells, for the
  record it is called on, whether it returns (\<open>None\<close>) or raises (the message).
\<close>

record rebalancer =
  rb_account_id :: string
  config :: RebalanceConfig
  on_trade :: "(TradeExecution \<Rightarrow> string option) option"
  trade_history :: "TradeExecution list"
  daily_trade_count :: int
  last_trade_time :: "string \<Rightarrow> datetime option"
  last_reset_date :: int
  running :: bool

record order =
  ord_account_id :: string
  ord_symbol_id :: int
  ord_type :: string
  ord_quantity :: real
  ord_price :: real
  ord_status :: string
  ord_created_at :: datetime
  ord_filled_at :: datetime

text \<open>The lines the rebalancer writes to its logger.\<close>

datatype throttle_message = DailyLimitReached | CooldownActive real | TradeOK

datatype log_event =
    SkippingAlert ActionUrgency
  | CannotTrade string throttle_message
  | NoPositionFound string
  | TradeTooSmall string real
  | DryRunWould RebalanceAction real string real real
  | Executed RebalanceAction real string real real
  | TradeFailed string string
  | IdleCapitalDetected real

text \<open>
  What lies outside the rebalancer object: the rows the position store returns, the
  committed orders, whether the next persistence transaction fails (and with which
  message), the log, and the calls the trade callback has received.
\<close>

record world =
  db_positions :: "position list"
  db_orders :: "order list"
  commit_error :: "string option"
  w_log :: "log_event list"
  trade_notifications :: "TradeExecution list"

text \<open>
  The values that the successive calls of \<^verbatim>\<open>datetime.now()\<close> return while one alert is
  handled: in \<^verbatim>\<open>_reset_daily_limits\<close>, in the cooldown test, for the record's timestamp,
  for the order's two dates, and for the per-symbol stamp.
\<close>

record reads =
  t_reset :: datetime
  t_cooldown :: datetime
  t_timestamp :: datetime
  t_created :: datetime
  t_filled :: datetime
  t_stamp :: datetime

subsection \<open>Throttling\<close>

definition init_rebalancer ::
  "string \<Rightarrow> RebalanceConfig option \<Rightarrow> (TradeExecution \<Rightarrow> string option) option \<Rightarrow> datetime
   \<Rightarrow> rebalancer" where
  "init_rebalancer acc cfg cb now =
     \<lparr>rb_account_id = acc,
      config = (case cfg of None \<Rightarrow> default_config | Some c \<Rightarrow> c),
      on_trade = cb,
      trade_history = [],
      daily_trade_count = 0,
      last_trade_time = (\<lambda>_. None),
      last_reset_date = date_of now,
      running = False\<rparr>"

definition start :: "rebalancer \<Rightarrow> rebalancer" where
  "start s = s\<lparr>running := True\<rparr>"

definition stop :: "rebalancer \<Rightarrow> rebalancer" where
  "stop s = s\<lparr>running := False\<rparr>"

definition reset_daily_limits :: "rebalancer \<Rightarrow> datetime \<Rightarrow> rebalancer" where
  "reset_daily_limits s now =
     (if date_of now > last_reset_date s
      then s\<lparr>daily_trade_count := 0, last_reset_date := date_of now\<rparr>
      else s)"

definition can_trade ::
  "rebalancer \<Rightarrow> string \<Rightarrow> datetime \<Rightarrow> datetime \<Rightarrow> rebalancer \<times> bool \<times> throttle_message" where
  "can_trade s symbol now_reset now_cooldown =
     (let s1 = reset_daily_limits s now_reset
      in if daily_trade_count s1 \<ge> max_daily_trades (config s1)
         then (s1, False, DailyLimitReached)
         else (case last_trade_time s1 symbol of
                 Some last_time \<Rightarrow>
                   (let elapsed = minutes_between now_cooldown last_time
                    in if elapsed < real_of_int (cooldown_minutes (config s1))
                       then (s1, False,
                             CooldownActive (real_of_int (cooldown_minutes (config s1)) - elapsed))
                       else (s1, True, TradeOK))
               | None \<Rightarrow> (s1, True, TradeOK)))"

subsection \<open>Executing a trade\<close>

text \<open>\<^verbatim>\<open>str.upper\<close> on the ASCII letters; a \<open>string\<close> of HOL is a list of bytes.\<close>

definition upper_char :: "char \<Rightarrow> char" where
  "upper_char c =
     (let n = (of_char c :: nat) in if 97 \<le> n \<and> n \<le> 122 then char_of (n - 32) else c)"

definition upper :: "string \<Rightarrow> string" where
  "upper s = map upper_char s"

text \<open>The loop that looks the symbol up among the rows: the first match wins.\<close>

fun find_position :: "position list \<Rightarrow> string \<Rightarrow> position option" where
  "find_position [] symbol = None"
| "find_position (p # ps) symbol =
     (if upper (case pos_ticker p of Some t \<Rightarrow> t | None \<Rightarrow> []) = upper symbol
      then Some p
      else find_position ps symbol)"

text \<open>The row found by \<open>find_position\<close>, rewritten or deleted in the store.\<close>

fun update_position ::
  "position list \<Rightarrow> string \<Rightarrow> position option \<Rightarrow> position list" where
  "update_position [] symbol new = []"
| "update_position (p # ps) symbol new =
     (if upper (case pos_ticker p of Some t \<Rightarrow> t | None \<Rightarrow> []) = upper symbol
      then (case new of None \<Rightarrow> ps | Some p' \<Rightarrow> p' # ps)
      else p # update_position ps symbol new)"

text \<open>\<^verbatim>\<open>float(position.quantity)\<close> raises \<^verbatim>\<open>TypeError\<close> on \<^verbatim>\<open>None\<close>.\<close>

definition float_quantity :: "position \<Rightarrow> py_error + real" where
  "float_quantity p = (case pos_quantity p of None \<Rightarrow> Inl TypeError | Some q \<Rightarrow> Inr q)"

text \<open>
  \<^verbatim>\<open>_execute_real_trade\<close>: one transaction that adds a filled sell order and lowers (or
  deletes) the row. The result is the store after the call and the message of the
  exception, if one was raised; a failed transaction leaves the store as it was.
\<close>

definition execute_real_trade ::
  "rebalancer \<Rightarrow> world \<Rightarrow> reads \<Rightarrow> string \<Rightarrow> position option \<Rightarrow> RebalanceAction \<Rightarrow> real \<Rightarrow> real
   \<Rightarrow> world \<times> string option" where
  "execute_real_trade s w r symbol position action quantity price =
     (if action = SELL \<or> action = SELL_ALL then
        (case position of
           None \<Rightarrow> (w, Some ''AttributeError'')
         | Some p \<Rightarrow>
            (case float_quantity p of
               Inl e \<Rightarrow> (w, Some ''TypeError'')
             | Inr held \<Rightarrow>
                (case commit_error w of
                   Some msg \<Rightarrow> (w, Some msg)
                 | None \<Rightarrow>
                    (w\<lparr>db_orders := db_orders w @
                          [\<lparr>ord_account_id = rb_account_id s,
                            ord_symbol_id = pos_symbol_id p,
                            ord_type = ''sell'',
                            ord_quantity = quantity,
                            ord_price = price,
                            ord_status = ''filled'',
                            ord_created_at = t_created r,
                            ord_filled_at = t_filled r\<rparr>],
                        db_positions :=
                          update_position (db_positions w) symbol
                            (if held - quantity \<le> 0 then None
                             else Some (p\<lparr>pos_quantity := Some (held - quantity)\<rparr>))\<rparr>,
                     None))))
      else (w, None))"

text \<open>
  The last part of \<^verbatim>\<open>_execute_trade\<close>, from \<^verbatim>\<open># Update state\<close> on: the record joins the
  history, the counter and the stamp are written, then the callback runs. The result is
  the rebalancer, the world, and the exception that leaves the call, if any.
\<close>

definition record_trade ::
  "rebalancer \<Rightarrow> world \<Rightarrow> reads \<Rightarrow> string \<Rightarrow> TradeExecution
   \<Rightarrow> rebalancer \<times> world \<times> py_error option" where
  "record_trade s w r symbol execution =
     (let s2 = s\<lparr>trade_history := trade_history s @ [execution],
                 daily_trade_count := daily_trade_count s + 1,
                 last_trade_time := (last_trade_time s)(symbol \<mapsto> t_stamp r)\<rparr>
      in case on_trade s2 of
           None \<Rightarrow> (s2, w, None)
         | Some cb \<Rightarrow>
             (let w2 = w\<lparr>trade_notifications := trade_notifications w @ [execution]\<rparr>
              in case cb execution of
                   None \<Rightarrow> (s2, w2, None)
                 | Some msg \<Rightarrow> (s2, w2, Some (CallbackError msg))))"

text \<open>
  The steps \<^verbatim>\<open># Calculate quantity\<close> and \<^verbatim>\<open># Apply max single trade limit\<close> of
  \<^verbatim>\<open>_execute_trade\<close>: the quantity the action asks for, then its minimum with the
  share \<open>max_single_trade_pct\<close> of the held quantity whenever a row was found.
\<close>

definition resolve_quantity ::
  "RebalanceConfig \<Rightarrow> position option \<Rightarrow> RebalanceAction \<Rightarrow> real \<Rightarrow> py_error + real" where
  "resolve_quantity c position action quantity_pct =
     (case (if action = SELL_ALL
              then (case position of None \<Rightarrow> Inr 0 | Some p \<Rightarrow> float_quantity p)
            else if action = SELL
              then (case (case position of None \<Rightarrow> Inr 0 | Some p \<Rightarrow> float_quantity p) of
                      Inl e \<Rightarrow> Inl e
                    | Inr full_quantity \<Rightarrow> Inr (full_quantity * (quantity_pct / 100)))
            else Inr 0) of
        Inl e \<Rightarrow> Inl e
      | Inr quantity \<Rightarrow>
          (case position of
             None \<Rightarrow> Inr quantity
           | Some p \<Rightarrow>
               (case float_quantity p of
                  Inl e \<Rightarrow> Inl e
                | Inr held \<Rightarrow> Inr (min quantity (held * (max_single_trade_pct c / 100))))))"

text \<open>
  The branch on \<^verbatim>\<open>dry_run\<close> of \<^verbatim>\<open>_execute_trade\<close> and what follows it: a dry run only
  logs; a live run applies the trade and, when that raises, marks the record failed
  with the message. In all three cases the record is then passed on to be recorded.
\<close>

definition apply_and_record ::
  "rebalancer \<Rightarrow> world \<Rightarrow> reads \<Rightarrow> string \<Rightarrow> position option \<Rightarrow> TradeExecution
   \<Rightarrow> rebalancer \<times> world \<times> py_error option" where
  "apply_and_record s w r symbol position execution =
     (if dry_run (config s)
      then record_trade s
             (w\<lparr>w_log := w_log w @
                   [DryRunWould (te_action execution) (te_quantity execution) symbol
                      (te_price execution) (te_total_value execution)]\<rparr>)
             r symbol execution
      else
       (case execute_real_trade s w r symbol position (te_action execution)
               (te_quantity execution) (te_price execution) of
          (w1, None) \<Rightarrow>
            record_trade s
              (w1\<lparr>w_log := w_log w1 @
                     [Executed (te_action execution) (te_quantity execution) symbol
                        (te_price execution) (te_total_value execution)]\<rparr>)
              r symbol execution
        | (w1, Some msg) \<Rightarrow>
            record_trade s
              (w1\<lparr>w_log := w_log w1 @ [TradeFailed symbol msg]\<rparr>)
              r symbol
              (execution\<lparr>success := False, error := Some msg\<rparr>)))"

text \<open>
  \<^verbatim>\<open>_execute_trade\<close>. The early returns are the branches that leave the history as it
  is; \<open>quantity_pct\<close> is 100 where the caller omits it. An exception raised while the
  quantity is computed leaves the call at once.
\<close>

definition execute_trade ::
  "rebalancer \<Rightarrow> world \<Rightarrow> reads \<Rightarrow> string \<Rightarrow> RebalanceAction \<Rightarrow> trade_reason
   \<Rightarrow> AlertType option \<Rightarrow> real \<Rightarrow> real \<Rightarrow> rebalancer \<times> world \<times> py_error option" where
  "execute_trade s w r symbol action reason al_type price quantity_pct =
     (case can_trade s symbol (t_reset r) (t_cooldown r) of
        (s1, False, msg) \<Rightarrow> (s1, w\<lparr>w_log := w_log w @ [CannotTrade symbol msg]\<rparr>, None)
      | (s1, True, msg) \<Rightarrow>
         (let position = find_position (db_positions w) symbol
          in if position = None \<and> (action = SELL \<or> action = SELL_ALL)
             then (s1, w\<lparr>w_log := w_log w @ [NoPositionFound symbol]\<rparr>, None)
             else
              (case resolve_quantity (config s1) position action quantity_pct of
                 Inl e \<Rightarrow> (s1, w, Some e)
               | Inr quantity \<Rightarrow>
                  (let trade_value = (if price > 0 then quantity * price else 0)
                   in if trade_value < min_trade_value (config s1) \<and> action \<noteq> SELL_ALL
                      then (s1, w\<lparr>w_log := w_log w @ [TradeTooSmall symbol trade_value]\<rparr>,
                            None)
                      else apply_and_record s1 w r symbol position
                             \<lparr>timestamp = t_timestamp r,
                              te_symbol = symbol,
                              te_action = action,
                              te_quantity = quantity,
                              te_price = price,
                              te_total_value = trade_value,
                              te_reason = reason,
                              te_alert_type = al_type,
                              success = True,
                              error = None\<rparr>))))"

subsection \<open>Alert handlers\<close>

text \<open>\<^verbatim>\<open>alert.data.get(key, 0)\<close>.\<close>

definition data_get :: "Alert \<Rightarrow> string \<Rightarrow> real" where
  "data_get alert k = (case data alert k of None \<Rightarrow> 0 | Some v \<Rightarrow> v)"

definition handle_stop_loss ::
  "rebalancer \<Rightarrow> world \<Rightarrow> reads \<Rightarrow> Alert \<Rightarrow> rebalancer \<times> world \<times> py_error option" where
  "handle_stop_loss s w r alert =
     (case alert_symbol alert of
        None \<Rightarrow> (s, w, None)
      | Some symbol \<Rightarrow>
          if symbol = [] then (s, w, None)
          else
            (let pnl_pct = data_get alert ''pnl_pct'';
                 cur_price = data_get alert ''current_price''
             in if pnl_pct < auto_exit_loss_pct (config s)
                then execute_trade s w r symbol SELL_ALL (StopLossAt pnl_pct)
                       (Some (alert_type alert)) cur_price 100
                else execute_trade s w r symbol SELL (ReducingExposure pnl_pct)
                       (Some (alert_type alert)) cur_price 50))"

definition handle_take_profit ::
  "rebalancer \<Rightarrow> world \<Rightarrow> reads \<Rightarrow> Alert \<Rightarrow> rebalancer \<times> world \<times> py_error option" where
  "handle_take_profit s w r alert =
     (case alert_symbol alert of
        None \<Rightarrow> (s, w, None)
      | Some symbol \<Rightarrow>
          if symbol = [] then (s, w, None)
          else
            (let pnl_pct = data_get alert ''pnl_pct'';
                 cur_price = data_get alert ''current_price''
             in if pnl_pct > auto_reduce_gain_pct (config s)
                then (let reduce_pct = min 50 (max_single_trade_pct (config s))
                      in execute_trade s w r symbol SELL (TakingProfits pnl_pct)
                           (Some (alert_type alert)) cur_price reduce_pct)
                else (s, w, None)))"

definition handle_concentration ::
  "rebalancer \<Rightarrow> world \<Rightarrow> reads \<Rightarrow> Alert \<Rightarrow> rebalancer \<times> world \<times> py_error option" where
  "handle_concentration s w r alert =
     (case alert_symbol alert of
        None \<Rightarrow> (s, w, None)
      | Some symbol \<Rightarrow>
          if symbol = [] then (s, w, None)
          else
            (let concentration = data_get alert ''concentration_pct'';
                 cur_price = data_get alert ''current_price''
             in if concentration > auto_reduce_concentration_pct (config s)
                then (let target_pct = target_position_pct (config s)
                      in case truediv (concentration - target_pct) concentration of
                           Inl e \<Rightarrow> (s, w, Some e)
                         | Inr q \<Rightarrow>
                             (let reduce_pct = min (q * 100) (max_single_trade_pct (config s))
                              in execute_trade s w r symbol SELL
                                   (ReducingConcentration concentration target_pct)
                                   (Some (alert_type alert)) cur_price reduce_pct))
                else (s, w, None)))"

definition handle_risk_threshold ::
  "rebalancer \<Rightarrow> world \<Rightarrow> reads \<Rightarrow> Alert \<Rightarrow> rebalancer \<times> world \<times> py_error option" where
  "handle_risk_threshold s w r alert =
     (case alert_symbol alert of
        None \<Rightarrow> (s, w, None)
      | Some symbol \<Rightarrow>
          if symbol = [] then (s, w, None)
          else
            (let cur_price = data_get alert ''current_price''
             in execute_trade s w r symbol SELL_ALL CriticalRiskExceeded
                  (Some (alert_type alert)) cur_price 100))"

definition handle_idle_capital ::
  "rebalancer \<Rightarrow> world \<Rightarrow> reads \<Rightarrow> Alert \<Rightarrow> rebalancer \<times> world \<times> py_error option" where
  "handle_idle_capital s w r alert =
     (s, w\<lparr>w_log := w_log w @ [IdleCapitalDetected (data_get alert ''idle_pct'')]\<rparr>, None)"

definition should_act :: "RebalanceConfig \<Rightarrow> Alert \<Rightarrow> bool" where
  "should_act c alert =
     ((urgency alert = IMMEDIATE \<and> act_on_immediate c) \<or>
      (urgency alert = URGENCY_HIGH \<and> act_on_high c) \<or>
      (urgency alert = MEDIUM \<and> act_on_medium c) \<or>
      (urgency alert = URGENCY_LOW \<and> act_on_low c))"

definition handle_alert ::
  "rebalancer \<Rightarrow> world \<Rightarrow> reads \<Rightarrow> Alert \<Rightarrow> rebalancer \<times> world \<times> py_error option" where
  "handle_alert s w r alert =
     (if \<not> running s \<or> \<not> enabled (config s) then (s, w, None)
      else if \<not> should_act (config s) alert
        then (s, w\<lparr>w_log := w_log w @ [SkippingAlert (urgency alert)]\<rparr>, None)
      else (case alert_type alert of
              STOP_LOSS_HIT \<Rightarrow> handle_stop_loss s w r alert
            | TAKE_PROFIT \<Rightarrow> handle_take_profit s w r alert
            | CONCENTRATION \<Rightarrow> handle_concentration s w r alert
            | RISK_THRESHOLD \<Rightarrow> handle_risk_threshold s w r alert
            | IDLE_CAPITAL \<Rightarrow> handle_idle_capital s w r alert))"

subsection \<open>Statistics\<close>

record daily_stats =
  trades_today :: nat
  trades_remaining :: int
  total_volume :: real
  successful :: nat
  failed :: nat
  dry_run_mode :: bool

text \<open>
  \<^verbatim>\<open>get_daily_stats\<close>. The list comprehension reads the clock once for every record of
  the history; \<open>now_at i\<close> is the value read at the record of index \<open>i\<close>.
\<close>

definition get_daily_stats ::
  "rebalancer \<Rightarrow> datetime \<Rightarrow> (nat \<Rightarrow> datetime) \<Rightarrow> rebalancer \<times> daily_stats" where
  "get_daily_stats s now_reset now_at =
     (let s1 = reset_daily_limits s now_reset;
          today_trades =
            map snd (filter (\<lambda>it. date_of (timestamp (snd it)) = date_of (now_at (fst it)))
                       (enumerate 0 (trade_history s1)))
      in (s1,
          \<lparr>trades_today = length today_trades,
           trades_remaining = max_daily_trades (config s1) - daily_trade_count s1,
           total_volume = sum_list (map te_total_value (filter success today_trades)),
           successful = length (filter success today_trades),
           failed = length (filter (\<lambda>t. \<not> success t) today_trades),
           dry_run_mode = dry_run (config s1)\<rparr>))"

subsection \<open>Runs of the rebalancer\<close>

text \<open>
  The operations that reach one rebalancer object, each with what it finds outside the
  object when it runs: the world and the clock readings. An exception that leaves
  \<open>handle_alert\<close> does not undo the writes made before it, so a run goes on from the
  state the call left.
\<close>

datatype operation =
    HandleAlert Alert world reads
  | GetDailyStats datetime "nat \<Rightarrow> datetime"
  | Start
  | Stop

fun step :: "rebalancer \<Rightarrow> operation \<Rightarrow> rebalancer" where
  "step s (HandleAlert alert w r) = fst (handle_alert s w r alert)"
| "step s (GetDailyStats now_reset now_at) = fst (get_daily_stats s now_reset now_at)"
| "step s Start = start s"
| "step s Stop = stop s"

fun run :: "rebalancer \<Rightarrow> operation list \<Rightarrow> rebalancer" where
  "run s [] = s"
| "run s (x # xs) = run (step s x) xs"

text \<open>The number of records of the history whose timestamp falls on day \<open>d\<close>.\<close>

definition trades_on :: "int \<Rightarrow> rebalancer \<Rightarrow> nat" where
  "trades_on d s = length (filter (\<lambda>e. date_of (timestamp e) = d) (trade_history s))"

text \<open>The records of the history that are for \<open>symbol\<close>.\<close>

definition trades_for :: "string \<Rightarrow> rebalancer \<Rightarrow> TradeExecution list" where
  "trades_for symbol s = filter (\<lambda>e. te_symbol e = symbol) (trade_history s)"

subsection \<open>Notions used in the statements\<close>

text \<open>
  The rebalancer after a call in which a trade was recorded: the daily limits were
  checked at \<open>t_reset r\<close>, then the record \<open>ex\<close> joined the history, the counter went up
  by one and the symbol was stamped with \<open>t_stamp r\<close>.
\<close>

definition recorded :: "rebalancer \<Rightarrow> reads \<Rightarrow> string \<Rightarrow> TradeExecution \<Rightarrow> rebalancer" where
  "recorded s r symb ex =
     (reset_daily_limits s (t_reset r))
       \<lparr>trade_history := trade_history s @ [ex],
        daily_trade_count := daily_trade_count (reset_daily_limits s (t_reset r)) + 1,
        last_trade_time := (last_trade_time s)(symb \<mapsto> t_stamp r)\<rparr>"

text \<open>
  A run whose clock is well behaved from the reading \<open>t\<close> on: the reading of each daily
  limit check is not earlier than that of the check before it, and no alert is handled
  across midnight (the record's timestamp falls on the day of the limit check).
\<close>

fun clock_ok :: "datetime \<Rightarrow> operation list \<Rightarrow> bool" where
  "clock_ok t [] = True"
| "clock_ok t (HandleAlert alert w r # ops) =
     (t \<le> t_reset r \<and> date_of (t_timestamp r) = date_of (t_reset r) \<and> clock_ok (t_reset r) ops)"
| "clock_ok t (GetDailyStats now_reset now_at # ops) = (t \<le> now_reset \<and> clock_ok now_reset ops)"
| "clock_ok t (Start # ops) = clock_ok t ops"
| "clock_ok t (Stop # ops) = clock_ok t ops"

text \<open>
  The invariant behind the daily cap: no record is dated after the reset date, the
  records of the reset date are counted by the counter, the counter is within the cap,
  and so is the number of records of every day.
\<close>

definition daily_invariant :: "rebalancer \<Rightarrow> bool" where
  "daily_invariant s \<longleftrightarrow>
     (\<forall>e\<in>set (trade_history s). date_of (timestamp e) \<le> last_reset_date s) \<and>
     int (trades_on (last_reset_date s) s) \<le> daily_trade_count s \<and>
     daily_trade_count s \<le> max_daily_trades (config s) \<and>
     (\<forall>d. int (trades_on d s) \<le> max_daily_trades (config s))"

text \<open>
  An operation that falls within the cooldown of \<open>cd\<close> minutes after the stamp \<open>t0\<close>: an
  alert whose cooldown test reads the clock less than \<open>cd\<close> minutes after \<open>t0\<close>. The other
  operations do not trade.
\<close>

fun within_cooldown :: "int \<Rightarrow> datetime \<Rightarrow> operation \<Rightarrow> bool" where
  "within_cooldown cd t0 (HandleAlert alert w r) =
     (minutes_between (t_cooldown r) t0 < real_of_int cd)"
| "within_cooldown cd t0 (GetDailyStats now_reset now_at) = True"
| "within_cooldown cd t0 Start = True"
| "within_cooldown cd t0 Stop = True"


section \<open>Sample data\<close>

text \<open>Rows, accounts and alerts on which the theorems below are run.\<close>

definition short_row :: position where
  "short_row =
     \<lparr>pos_quantity = Some (- 5), pos_average_entry_price = Some 10,
      pos_current_price = Some 12, pos_ticker = Some ''AAPL'', pos_symbol_id = 1\<rparr>"

definition unpriced_row :: position where
  "unpriced_row =
     \<lparr>pos_quantity = Some 10, pos_average_entry_price = None,
      pos_current_price = None, pos_ticker = Some ''AAPL'', pos_symbol_id = 1\<rparr>"

definition cash_account :: account where
  "cash_account = \<lparr>acct_balance = Some 1000\<rparr>"

definition empty_account :: account where
  "empty_account = \<lparr>acct_balance = None\<rparr>"

definition held_row :: position where
  "held_row =
     \<lparr>pos_quantity = Some 100, pos_average_entry_price = Some 150,
      pos_current_price = Some 100, pos_ticker = Some ''AAPL'', pos_symbol_id = 1\<rparr>"

definition sample_world :: world where
  "sample_world =
     \<lparr>db_positions = [held_row], db_orders = [], commit_error = None,
      w_log = [], trade_notifications = []\<rparr>"

definition failing_world :: world where
  "failing_world = sample_world\<lparr>commit_error := Some ''database is locked''\<rparr>"

definition risk_alert :: Alert where
  "risk_alert =
     \<lparr>alert_type = RISK_THRESHOLD, urgency = IMMEDIATE, alert_symbol = Some ''AAPL'',
      title = ''Critical risk'', message = ''AAPL at critical risk'',
      data = [''current_price'' \<mapsto> 100]\<rparr>"

definition stop_loss_alert :: Alert where
  "stop_loss_alert =
     \<lparr>alert_type = STOP_LOSS_HIT, urgency = IMMEDIATE, alert_symbol = Some ''AAPL'',
      title = ''Stop loss'', message = ''AAPL hit its stop loss'',
      data = [''pnl_pct'' \<mapsto> - 33, ''current_price'' \<mapsto> 100]\<rparr>"

text \<open>A call during which the clock does not move: every reading is \<open>t\<close>.\<close>

definition reads_at :: "datetime \<Rightarrow> reads" where
  "reads_at t = \<lparr>t_reset = t, t_cooldown = t, t_timestamp = t, t_created = t,
                 t_filled = t, t_stamp = t\<rparr>"

text \<open>
  Three started rebalancers, built at time 0: with the default configuration (a dry
  run) and no callback; live, with a callback that returns; and a dry run with a
  callback that raises.
\<close>

definition sample_rebalancer :: rebalancer where
  "sample_rebalancer = start (init_rebalancer ''demo'' None None 0)"

definition live_config :: RebalanceConfig where
  "live_config = default_config\<lparr>dry_run := False\<rparr>"

definition live_rebalancer :: rebalancer where
  "live_rebalancer = start (init_rebalancer ''demo'' (Some live_config) (Some (\<lambda>t. None)) 0)"

definition raising_rebalancer :: rebalancer where
  "raising_rebalancer =
     start (init_rebalancer ''demo'' None (Some (\<lambda>t. Some ''notify failed'')) 0)"

definition five_minutes :: datetime where
  "five_minutes = 300000000"

definition next_day :: datetime where
  "next_day = 86400000000"

text \<open>A day of operations: two alerts five minutes apart, then a statistics query.\<close>

definition sample_day :: "operation list" where
  "sample_day =
     [Start,
      HandleAlert stop_loss_alert sample_world (reads_at 0),
      HandleAlert risk_alert sample_world (reads_at five_minutes),
      GetDailyStats five_minutes (\<lambda>i. five_minutes)]"

section \<open>Properties of the portfolio risk service\<close>

subsection \<open>Shared facts\<close>

lemma assess_position_returns:
  "\<exists>a. assess_position self p tv = Inr a"
  by (simp add: assess_position_def truediv_def Let_def)

lemma assess_position_echo:
  "assess_position self p tv = Inr a \<Longrightarrow>
     pra_quantity a = quantity_of p \<and> pra_entry_price a = entry_price_of p \<and>
     pra_current_price a = current_price_of p"
  by (auto simp: assess_position_def truediv_def Let_def split: if_splits)

lemma pnl_pct_zero_cost_basis:
  "cost_basis_of p = 0 \<Longrightarrow> assess_position self p tv = Inr a \<Longrightarrow> unrealized_pnl_pct a = 0"
  by (auto simp: assess_position_def truediv_def Let_def split: if_splits)

lemma concentration_zero_total:
  "assess_position self p 0 = Inr a \<Longrightarrow> concentration_risk a = 0"
  by (auto simp: assess_position_def truediv_def Let_def split: if_splits)

lemma assess_positions_concentration_zero:
  "assess_positions self ps 0 = Inr as \<Longrightarrow> \<forall>a\<in>set as. concentration_risk a = 0"
  by (induction ps arbitrary: as)
     (auto split: if_splits sum.splits option.splits dest: concentration_zero_total)

lemma analyze_keeps:
  "positions (analyze_portfolio_composition self a) = positions a"
  "total_value (analyze_portfolio_composition self a) = total_value a"
  by (simp_all add: analyze_portfolio_composition_def Let_def)

lemma generate_keeps:
  "generate_recommendations a = Inr b \<Longrightarrow>
     positions b = positions a \<and> total_value b = total_value a"
  by (auto simp: generate_recommendations_def Let_def truediv_def split: if_splits sum.splits)

lemma portfolio_positions:
  assumes "assess_portfolio_risk self acc (Some ac) rows = Inr pa"
  shows "assess_positions self rows (total_value pa) = Inr (positions pa)"
  using assms
  by (auto simp: assess_portfolio_risk_def Let_def analyze_keeps
           split: sum.splits dest!: generate_keeps)

lemma assess_positions_quantities:
  "\<exists>as. assess_positions self ps tv = Inr as \<and>
        map pra_quantity as = filter (\<lambda>q. q > 0) (map quantity_of ps)"
proof (induction ps)
  case Nil
  show ?case by simp
next
  case (Cons p ps)
  then obtain as where as: "assess_positions self ps tv = Inr as"
    "map pra_quantity as = filter (\<lambda>q. q > 0) (map quantity_of ps)"
    by blast
  obtain a where a: "assess_position self p tv = Inr a"
    using assess_position_returns by blast
  then have q: "pra_quantity a = quantity_of p"
    using assess_position_echo by blast
  have qp: "quantity_of p = (case pos_quantity p of None \<Rightarrow> 0 | Some v \<Rightarrow> v)"
    by (simp add: quantity_of_def or0_def)
  show ?case using as a q qp
    by (auto split: option.splits)
qed

subsection \<open>Risk level and profit and loss\<close>

text \<open>
  Claim C2, as stated: with the concentration fixed, the risk level never decreases (in the
  order LOW < MODERATE < HIGH < CRITICAL) when the P&L percentage strictly decreases.
  It fails: a gain above 30 is rated MODERATE by the profit-taking rule, and a smaller
  gain at the same low concentration is rated LOW. At concentration 10, a P&L of 35 gives
  MODERATE and a P&L of 0 gives LOW.
\<close>

theorem risk_level_monotone_counterexample:
  "(0::real) < 35 \<and>
   calculate_risk_level 35 10 = MODERATE \<and> calculate_risk_level 0 10 = LOW \<and>
   risk_rank (calculate_risk_level 0 10) < risk_rank (calculate_risk_level 35 10)"
  by (simp add: calculate_risk_level_def)

text \<open>
  Claim C2, amended: with the concentration \<open>c\<close> fixed and \<open>pnl2 < pnl1\<close>, the risk level
  at \<open>pnl2\<close> is at least the risk level at \<open>pnl1\<close>, except when the profit-taking rule
  alone rates \<open>pnl1\<close>: that is, except when \<open>pnl1 > 30\<close>, \<open>c \<le> 25\<close> and
  \<open>- 10 \<le> pnl2 \<le> 30\<close>, where the level drops from MODERATE to LOW. The exception is
  exact: the level decreases in that case and in no other.
\<close>

theorem risk_level_monotone_outside_profit_rule:
  assumes "pnl2 < pnl1"
  shows "risk_rank (calculate_risk_level pnl1 c) \<le> risk_rank (calculate_risk_level pnl2 c)
         \<longleftrightarrow> \<not> (pnl1 > 30 \<and> c \<le> 25 \<and> - 10 \<le> pnl2 \<and> pnl2 \<le> 30)"
  using assms by (auto simp: calculate_risk_level_def)

theorem risk_level_monotone_outside_profit_rule_witness:
  "(- 15 :: real) < 5 \<and>
   \<not> ((5::real) > 30 \<and> (10::real) \<le> 25 \<and> - 10 \<le> (- 15 :: real) \<and> (- 15 :: real) \<le> 30) \<and>
   risk_rank (calculate_risk_level 5 10) \<le> risk_rank (calculate_risk_level (- 15) 10)"
proof -
  have h: "(- 15 :: real) < 5" by simp
  show ?thesis
    using risk_level_monotone_outside_profit_rule [OF h, of 10] by simp
qed

subsection \<open>The empty portfolio\<close>

text \<open>
  Claim C3, as stated: for an account with zero positions the assessment has
  diversification score 100, overall risk LOW, \<open>rebalance_needed\<close> false and an empty list
  of suggested actions, whatever the cash balance. The last part fails: with a positive
  balance the cash is all of the portfolio's value, above the 30% line, and the list
  holds a \<^verbatim>\<open>deploy_cash\<close> suggestion.
\<close>

theorem empty_portfolio_cash_counterexample:
  "\<not> isl (assess_portfolio_risk init_service ''acct'' (Some cash_account) []) \<and>
   positions (projr (assess_portfolio_risk init_service ''acct'' (Some cash_account) [])) = [] \<and>
   suggested_actions (projr (assess_portfolio_risk init_service ''acct'' (Some cash_account) []))
     = [deploy_cash_suggestion 0 100 1000] \<and>
   suggested_actions (projr (assess_portfolio_risk init_service ''acct'' (Some cash_account) []))
     \<noteq> []"
  by (simp add: assess_portfolio_risk_def analyze_portfolio_composition_def
        generate_recommendations_def truediv_def Let_def cash_account_def or0_def)

text \<open>
  Claim C3, amended: for an account with zero positions the assessment is returned with
  diversification score 100, overall risk LOW and \<open>rebalance_needed\<close> false; its list of
  suggested actions is empty when the cash balance is missing, zero or negative, and is
  the single \<^verbatim>\<open>deploy_cash\<close> suggestion (priority 1, cash at 100%) when the balance is
  positive.
\<close>

theorem empty_portfolio_assessment:
  "\<exists>pa. assess_portfolio_risk self acc (Some ac) [] = Inr pa \<and>
      positions pa = [] \<and>
      diversification_score pa = 100 \<and> overall_risk_level pa = LOW \<and>
      rebalance_needed pa = False \<and>
      suggested_actions pa =
        (if or0 (acct_balance ac) > 0
         then [deploy_cash_suggestion 0 100 (or0 (acct_balance ac))]
         else [])"
  by (simp add: assess_portfolio_risk_def analyze_portfolio_composition_def
        generate_recommendations_def truediv_def Let_def)

theorem empty_portfolio_assessment_witness:
  "\<exists>pa. assess_portfolio_risk init_service ''acct'' (Some empty_account) [] = Inr pa \<and>
      diversification_score pa = 100 \<and> overall_risk_level pa = LOW \<and>
      rebalance_needed pa = False \<and> suggested_actions pa = []"
proof -
  have "\<not> or0 (acct_balance empty_account) > 0"
    by (simp add: empty_account_def or0_def)
  then show ?thesis
    using empty_portfolio_assessment [of init_service "''acct''" empty_account]
    by auto
qed

subsection \<open>Malformed rows\<close>

text \<open>
  Claim C4, as stated: position assessment fails with InvalidInputError on every input
  with a negative quantity or a negative price, and succeeds on all others. It fails:
  the service has no such error and no check of its inputs. A row with quantity \<open>- 5\<close>
  is assessed like any other and the result carries the negative quantity.
\<close>

theorem negative_quantity_assessed_counterexample:
  "\<not> isl (assess_position init_service short_row 1000) \<and>
   pra_quantity (projr (assess_position init_service short_row 1000)) = - 5 \<and>
   market_value (projr (assess_position init_service short_row 1000)) = - 60 \<and>
   unrealized_pnl_pct (projr (assess_position init_service short_row 1000)) = 0 \<and>
   risk_level (projr (assess_position init_service short_row 1000)) = LOW \<and>
   recommended_action (projr (assess_position init_service short_row 1000)) = HOLD"
  by (simp add: assess_position_def truediv_def Let_def short_row_def init_service_def
        quantity_of_def entry_price_of_def current_price_of_def cost_basis_of_def
        or0_def or_else_def calculate_risk_level_def determine_action_def)

text \<open>
  Claim C4, amended: position assessment rejects nothing. It returns an assessment for
  every row and every portfolio total, negative figures included, and the assessment
  carries the quantity and the prices as read from the row. Portfolio assessment does
  not reject a row either: it assesses the rows whose quantity is positive and passes
  over the others, so the quantities of the assessed positions are the positive
  quantities of the rows, in order.
\<close>

theorem assess_position_never_rejects:
  "(\<exists>a. assess_position self p tv = Inr a \<and>
        pra_quantity a = quantity_of p \<and> pra_entry_price a = entry_price_of p \<and>
        pra_current_price a = current_price_of p) \<and>
   (\<exists>as. assess_positions self ps tv = Inr as \<and>
        map pra_quantity as = filter (\<lambda>q. q > 0) (map quantity_of ps))"
  using assess_position_returns [of self p tv] assess_position_echo [of self p tv]
        assess_positions_quantities [of self ps tv]
  by blast

theorem assess_position_never_rejects_witness:
  "(\<exists>a. assess_position init_service short_row 1000 = Inr a \<and> pra_quantity a = - 5) \<and>
   (\<exists>as. assess_positions init_service [short_row, unpriced_row] 1000 = Inr as \<and>
        map pra_quantity as = [10])"
proof -
  have q: "quantity_of short_row = - 5"
    by (simp add: short_row_def quantity_of_def or0_def)
  have qs: "filter (\<lambda>q. q > 0) (map quantity_of [short_row, unpriced_row]) = [10]"
    by (simp add: short_row_def unpriced_row_def quantity_of_def or0_def)
  show ?thesis
    using assess_position_never_rejects [of init_service short_row 1000
            "[short_row, unpriced_row]"]
    unfolding q qs by blast
qed

subsection \<open>Zero denominators\<close>

text \<open>
  Claim C9: for every position whose cost basis is 0 the assessment is returned (no
  division fault) with \<open>unrealized_pnl_pct = 0\<close>; and when the total portfolio value is
  0, every position's concentration is 0, both for a single assessment against a total
  of 0 and for every position of a portfolio assessment whose total value is 0.
\<close>

theorem zero_denominators_give_zero:
  "(cost_basis_of p = 0 \<longrightarrow>
      (\<exists>a. assess_position self p tv = Inr a \<and> unrealized_pnl_pct a = 0)) \<and>
   (\<exists>a. assess_position self p 0 = Inr a \<and> concentration_risk a = 0) \<and>
   (assess_portfolio_risk self acc (Some ac) rows = Inr pa \<and> total_value pa = 0 \<longrightarrow>
      (\<forall>a\<in>set (positions pa). concentration_risk a = 0))"
proof (intro conjI impI)
  assume cb: "cost_basis_of p = 0"
  obtain a where a: "assess_position self p tv = Inr a"
    using assess_position_returns by blast
  with cb show "\<exists>a. assess_position self p tv = Inr a \<and> unrealized_pnl_pct a = 0"
    using pnl_pct_zero_cost_basis by blast
next
  obtain a where a: "assess_position self p 0 = Inr a"
    using assess_position_returns by blast
  then show "\<exists>a. assess_position self p 0 = Inr a \<and> concentration_risk a = 0"
    using concentration_zero_total by blast
next
  assume h: "assess_portfolio_risk self acc (Some ac) rows = Inr pa \<and> total_value pa = 0"
  then have "assess_positions self rows 0 = Inr (positions pa)"
    using portfolio_positions by metis
  then show "\<forall>a\<in>set (positions pa). concentration_risk a = 0"
    by (rule assess_positions_concentration_zero)
qed

theorem zero_denominators_give_zero_witness:
  "cost_basis_of unpriced_row = 0 \<and>
   (\<exists>a. assess_position init_service unpriced_row 500 = Inr a \<and> unrealized_pnl_pct a = 0) \<and>
   (\<exists>pa. assess_portfolio_risk init_service ''acct'' (Some empty_account) [unpriced_row]
            = Inr pa \<and>
         total_value pa = 0 \<and> length (positions pa) = 1 \<and>
         (\<forall>a\<in>set (positions pa). concentration_risk a = 0))"
proof -
  have cb: "cost_basis_of unpriced_row = 0"
    by (simp add: cost_basis_of_def quantity_of_def entry_price_of_def unpriced_row_def
          or0_def)
  obtain pa where pa:
    "assess_portfolio_risk init_service ''acct'' (Some empty_account) [unpriced_row] = Inr pa"
    "total_value pa = 0" "length (positions pa) = 1"
    by (simp add: assess_portfolio_risk_def assess_position_def
          analyze_portfolio_composition_def generate_recommendations_def truediv_def Let_def
          unpriced_row_def empty_account_def quantity_of_def entry_price_of_def
          current_price_of_def cost_basis_of_def or0_def or_else_def)
  show ?thesis
    using cb pa
      zero_denominators_give_zero [of unpriced_row init_service 500 "''acct''"
        empty_account "[unpriced_row]" pa]
    by blast
qed

section \<open>Properties of the auto rebalancer\<close>

subsection \<open>Shared facts\<close>

lemma reset_fields [simp]:
  "config (reset_daily_limits s t) = config s"
  "on_trade (reset_daily_limits s t) = on_trade s"
  "trade_history (reset_daily_limits s t) = trade_history s"
  "last_trade_time (reset_daily_limits s t) = last_trade_time s"
  "running (reset_daily_limits s t) = running s"
  by (simp_all add: reset_daily_limits_def)

lemma can_trade_state:
  "can_trade s symb t1 t2 = (s1, ok, msg) \<Longrightarrow> s1 = reset_daily_limits s t1"
  by (auto simp: can_trade_def Let_def split: if_splits option.splits)

lemma can_trade_ok:
  "can_trade s symb t1 t2 = (s1, True, msg) \<Longrightarrow>
     daily_trade_count s1 < max_daily_trades (config s) \<and>
     (\<forall>lt. last_trade_time s symb = Some lt \<longrightarrow>
        \<not> minutes_between t2 lt < real_of_int (cooldown_minutes (config s)))"
  by (auto simp: can_trade_def Let_def split: if_splits option.splits)

lemma record_trade_result:
  "record_trade s w r symb ex = (s', w', exc) \<Longrightarrow>
     s' = s\<lparr>trade_history := trade_history s @ [ex],
            daily_trade_count := daily_trade_count s + 1,
            last_trade_time := (last_trade_time s)(symb \<mapsto> t_stamp r)\<rparr> \<and>
     w_log w' = w_log w \<and>
     (case on_trade s of
        None \<Rightarrow> trade_notifications w' = trade_notifications w \<and> exc = None
      | Some cb \<Rightarrow> trade_notifications w' = trade_notifications w @ [ex] \<and>
                   exc = map_option CallbackError (cb ex))"
  by (auto simp: record_trade_def Let_def split: option.splits)

lemma execute_real_trade_world:
  "execute_real_trade s w r symb pos act q price = (w1, res) \<Longrightarrow>
     w_log w1 = w_log w \<and> trade_notifications w1 = trade_notifications w"
  by (auto simp: execute_real_trade_def split: if_splits option.splits sum.splits)

lemma apply_and_record_result:
  assumes "apply_and_record s w r symb pos ex = (s', w', exc)"
  shows "\<exists>ex'. s' = s\<lparr>trade_history := trade_history s @ [ex'],
                        daily_trade_count := daily_trade_count s + 1,
                        last_trade_time := (last_trade_time s)(symb \<mapsto> t_stamp r)\<rparr> \<and>
               te_symbol ex' = te_symbol ex \<and> timestamp ex' = timestamp ex \<and>
               te_quantity ex' = te_quantity ex \<and> te_action ex' = te_action ex"
  using assms
  by (auto simp: apply_and_record_def split: if_splits prod.splits option.splits
           dest!: record_trade_result)

lemma execute_trade_state:
  assumes "execute_trade s w r symb act reason aty price q = (s', w', exc)"
  shows "s' = reset_daily_limits s (t_reset r) \<or>
         (\<exists>ex. s' = (reset_daily_limits s (t_reset r))
                  \<lparr>trade_history := trade_history s @ [ex],
                   daily_trade_count := daily_trade_count (reset_daily_limits s (t_reset r)) + 1,
                   last_trade_time := (last_trade_time s)(symb \<mapsto> t_stamp r)\<rparr> \<and>
               te_symbol ex = symb \<and> timestamp ex = t_timestamp r \<and>
               daily_trade_count (reset_daily_limits s (t_reset r)) < max_daily_trades (config s) \<and>
               (\<forall>lt. last_trade_time s symb = Some lt \<longrightarrow>
                  \<not> minutes_between (t_cooldown r) lt < real_of_int (cooldown_minutes (config s))))"
proof (cases "can_trade s symb (t_reset r) (t_cooldown r)")
  case (fields s1 ok msg)
  then have s1: "s1 = reset_daily_limits s (t_reset r)" by (rule can_trade_state)
  show ?thesis
  proof (cases ok)
    case False
    with assms fields s1 show ?thesis by (simp add: execute_trade_def)
  next
    case True
    from fields True have ct: "can_trade s symb (t_reset r) (t_cooldown r) = (s1, True, msg)"
      by simp
    note okf = can_trade_ok [OF ct]
    from assms ct show ?thesis
      unfolding execute_trade_def
      apply (simp add: Let_def split: if_splits sum.splits)
      using okf s1 by (auto dest!: apply_and_record_result)
  qed
qed


lemma handle_alert_dispatch:
  assumes "handle_alert s w r alert = res"
  shows "res = (s, w, None) \<or>
         res = (s, w\<lparr>w_log := w_log w @ [SkippingAlert (urgency alert)]\<rparr>, None) \<or>
         res = (s, w\<lparr>w_log := w_log w @ [IdleCapitalDetected (data_get alert ''idle_pct'')]\<rparr>,
                None) \<or>
         res = (s, w, Some ZeroDivisionError) \<or>
         (\<exists>symb act reason price q.
            alert_symbol alert = Some symb \<and>
            res = execute_trade s w r symb act reason (Some (alert_type alert)) price q)"
proof (cases "alert_type alert")
  case STOP_LOSS_HIT
  with assms show ?thesis
    by (auto simp: handle_alert_def handle_stop_loss_def Let_def
             split: if_splits option.splits)
next
  case TAKE_PROFIT
  with assms show ?thesis
    by (auto simp: handle_alert_def handle_take_profit_def Let_def
             split: if_splits option.splits)
next
  case CONCENTRATION
  with assms show ?thesis
    by (auto simp: handle_alert_def handle_concentration_def Let_def truediv_def
             split: if_splits option.splits)
next
  case RISK_THRESHOLD
  with assms show ?thesis
    by (auto simp: handle_alert_def handle_risk_threshold_def Let_def
             split: if_splits option.splits)
next
  case IDLE_CAPITAL
  with assms show ?thesis
    by (auto simp: handle_alert_def handle_idle_capital_def split: if_splits)
qed

lemma handle_alert_state:
  assumes "handle_alert s w r alert = (s', w', exc)"
  shows "s' = s \<or> s' = reset_daily_limits s (t_reset r) \<or>
         (\<exists>symb ex. s' = recorded s r symb ex \<and>
               te_symbol ex = symb \<and> timestamp ex = t_timestamp r \<and>
               daily_trade_count (reset_daily_limits s (t_reset r)) < max_daily_trades (config s) \<and>
               (\<forall>lt. last_trade_time s symb = Some lt \<longrightarrow>
                  \<not> minutes_between (t_cooldown r) lt < real_of_int (cooldown_minutes (config s))))"
  using handle_alert_dispatch [OF assms]
  unfolding recorded_def
  by (auto dest!: execute_trade_state [OF sym])


lemma step_config: "config (step s x) = config s"
proof (cases x)
  case (HandleAlert alert w r)
  obtain s' w' exc where h: "handle_alert s w r alert = (s', w', exc)"
    by (cases "handle_alert s w r alert") auto
  from handle_alert_state [OF h] have "config s' = config s"
    by (auto simp: recorded_def)
  with h HandleAlert show ?thesis by simp
qed (simp_all add: get_daily_stats_def start_def stop_def Let_def)

lemma run_config: "config (run s ops) = config s"
  by (induction ops arbitrary: s) (simp_all add: step_config)

lemma date_of_mono: "a \<le> b \<Longrightarrow> date_of a \<le> date_of b"
  by (simp add: date_of_def zdiv_mono1)

lemma trades_on_none:
  "\<forall>e\<in>set (trade_history s). date_of (timestamp e) < d \<Longrightarrow> trades_on d s = 0"
  by (auto simp: trades_on_def filter_empty_conv)

lemma reset_invariant:
  assumes "daily_invariant s" "0 \<le> max_daily_trades (config s)" "last_reset_date s \<le> date_of t"
  shows "daily_invariant (reset_daily_limits s t) \<and>
         last_reset_date (reset_daily_limits s t) = date_of t"
proof (cases "last_reset_date s < date_of t")
  case True
  have "\<forall>e\<in>set (trade_history s). date_of (timestamp e) < date_of t"
    using assms(1) True by (fastforce simp: daily_invariant_def)
  then have z: "trades_on (date_of t) s = 0" by (rule trades_on_none)
  have eq: "trades_on d (reset_daily_limits s t) = trades_on d s" for d
    by (simp add: trades_on_def)
  show ?thesis using assms True z
    by (auto simp: daily_invariant_def eq) (auto simp: reset_daily_limits_def)
next
  case False
  with assms(3) have "reset_daily_limits s t = s" "last_reset_date s = date_of t"
    by (auto simp: reset_daily_limits_def)
  with assms(1) show ?thesis by simp
qed

lemma recorded_invariant:
  assumes inv: "daily_invariant s" and pos: "0 \<le> max_daily_trades (config s)"
    and clock: "last_reset_date s \<le> date_of (t_reset r)"
    and day: "date_of (timestamp ex) = date_of (t_reset r)"
    and room: "daily_trade_count (reset_daily_limits s (t_reset r)) < max_daily_trades (config s)"
  shows "daily_invariant (recorded s r symb ex) \<and>
         last_reset_date (recorded s r symb ex) = date_of (t_reset r)"
proof -
  let ?s1 = "reset_daily_limits s (t_reset r)"
  from reset_invariant [OF inv pos clock]
  have i1: "daily_invariant ?s1" and l1: "last_reset_date ?s1 = date_of (t_reset r)" by auto
  have hist: "trade_history (recorded s r symb ex) = trade_history ?s1 @ [ex]"
    by (simp add: recorded_def)
  have ton: "trades_on d (recorded s r symb ex) =
             trades_on d ?s1 + (if date_of (timestamp ex) = d then 1 else 0)" for d
    by (simp add: trades_on_def hist)
  have cnt: "daily_trade_count (recorded s r symb ex) = daily_trade_count ?s1 + 1"
    and lrd: "last_reset_date (recorded s r symb ex) = last_reset_date ?s1"
    and cfg: "config (recorded s r symb ex) = config s"
    by (simp_all add: recorded_def)
  have a: "\<forall>e\<in>set (trade_history (recorded s r symb ex)).
             date_of (timestamp e) \<le> last_reset_date (recorded s r symb ex)"
    using i1 l1 day by (auto simp: hist lrd daily_invariant_def)
  have b: "int (trades_on (last_reset_date ?s1) ?s1) \<le> daily_trade_count ?s1"
    using i1 by (simp add: daily_invariant_def)
  have c: "\<forall>d. int (trades_on d ?s1) \<le> max_daily_trades (config s)"
    using i1 by (simp add: daily_invariant_def)
  have d: "int (trades_on d (recorded s r symb ex)) \<le> max_daily_trades (config s)" for d
  proof (cases "date_of (timestamp ex) = d")
    case True
    then have "d = last_reset_date ?s1" using day l1 by simp
    with b room True show ?thesis by (simp add: ton)
  next
    case False
    with c show ?thesis by (simp add: ton)
  qed
  show ?thesis
    unfolding daily_invariant_def
    using a b d room day l1 by (simp add: cnt lrd cfg ton)
qed

lemma handle_alert_invariant:
  assumes inv: "daily_invariant s" and pos: "0 \<le> max_daily_trades (config s)"
    and clock: "last_reset_date s \<le> date_of (t_reset r)"
    and day: "date_of (t_timestamp r) = date_of (t_reset r)"
    and h: "handle_alert s w r alert = (s', w', exc)"
  shows "daily_invariant s' \<and> last_reset_date s' \<le> date_of (t_reset r)"
  using handle_alert_state [OF h] inv clock
    reset_invariant [OF inv pos clock]
    recorded_invariant [OF inv pos clock]
    day
  by (metis order_refl)


lemma step_invariant:
  assumes inv: "daily_invariant s" and pos: "0 \<le> max_daily_trades (config s)"
    and clock: "last_reset_date s \<le> date_of t" and ok: "clock_ok t (x # ops)"
  shows "\<exists>t'. daily_invariant (step s x) \<and> last_reset_date (step s x) \<le> date_of t' \<and>
              clock_ok t' ops"
proof (cases x)
  case (HandleAlert alert w r)
  obtain s' w' exc where h: "handle_alert s w r alert = (s', w', exc)"
    by (cases "handle_alert s w r alert") auto
  from ok HandleAlert have c: "t \<le> t_reset r" "date_of (t_timestamp r) = date_of (t_reset r)"
    "clock_ok (t_reset r) ops" by simp_all
  from clock c(1) have "last_reset_date s \<le> date_of (t_reset r)"
    using date_of_mono order_trans by blast
  from handle_alert_invariant [OF inv pos this c(2) h] c(3) h HandleAlert
  show ?thesis by auto
next
  case (GetDailyStats now_reset now_at)
  with ok have c: "t \<le> now_reset" "clock_ok now_reset ops" by simp_all
  from clock c(1) have "last_reset_date s \<le> date_of now_reset"
    using date_of_mono order_trans by blast
  from reset_invariant [OF inv pos this] c(2) GetDailyStats
  show ?thesis by (auto simp: get_daily_stats_def Let_def)
next
  case Start
  with inv clock ok show ?thesis
    by (auto simp: start_def daily_invariant_def trades_on_def)
next
  case Stop
  with inv clock ok show ?thesis
    by (auto simp: stop_def daily_invariant_def trades_on_def)
qed

lemma run_invariant:
  "daily_invariant s \<Longrightarrow> 0 \<le> max_daily_trades (config s) \<Longrightarrow>
   last_reset_date s \<le> date_of t \<Longrightarrow> clock_ok t ops \<Longrightarrow> daily_invariant (run s ops)"
proof (induction ops arbitrary: s t)
  case Nil
  then show ?case by simp
next
  case (Cons x ops)
  from step_invariant [OF Cons.prems]
  obtain t' where t': "daily_invariant (step s x)" "last_reset_date (step s x) \<le> date_of t'"
    "clock_ok t' ops" by blast
  from Cons.prems(2) have "0 \<le> max_daily_trades (config (step s x))"
    by (simp add: step_config)
  from Cons.IH [OF t'(1) this t'(2) t'(3)] show ?case by simp
qed

lemma init_invariant:
  "0 \<le> max_daily_trades (config (init_rebalancer acc cfg cb t0)) \<Longrightarrow>
   daily_invariant (init_rebalancer acc cfg cb t0)"
  by (simp add: daily_invariant_def init_rebalancer_def trades_on_def)

lemma reset_count_le:
  "daily_trade_count s \<le> max_daily_trades (config s) \<Longrightarrow> 0 \<le> max_daily_trades (config s) \<Longrightarrow>
   daily_trade_count (reset_daily_limits s t) \<le> max_daily_trades (config s)"
  by (simp add: reset_daily_limits_def)

lemma step_count_le:
  assumes "daily_trade_count s \<le> max_daily_trades (config s)" "0 \<le> max_daily_trades (config s)"
  shows "daily_trade_count (step s x) \<le> max_daily_trades (config s)"
proof (cases x)
  case (HandleAlert alert w r)
  obtain s' w' exc where h: "handle_alert s w r alert = (s', w', exc)"
    by (cases "handle_alert s w r alert") auto
  from handle_alert_state [OF h] assms reset_count_le [OF assms, of "t_reset r"]
  have "daily_trade_count s' \<le> max_daily_trades (config s)"
    by (auto simp: recorded_def)
  with h HandleAlert show ?thesis by simp
next
  case (GetDailyStats now_reset now_at)
  with reset_count_le [OF assms, of now_reset] show ?thesis
    by (simp add: get_daily_stats_def Let_def)
qed (use assms in \<open>simp_all add: start_def stop_def\<close>)

lemma run_count_le:
  "daily_trade_count s \<le> max_daily_trades (config s) \<Longrightarrow> 0 \<le> max_daily_trades (config s) \<Longrightarrow>
   daily_trade_count (run s ops) \<le> max_daily_trades (config s)"
proof (induction ops arbitrary: s)
  case Nil
  then show ?case by simp
next
  case (Cons x ops)
  from step_count_le [OF Cons.prems]
  have "daily_trade_count (step s x) \<le> max_daily_trades (config (step s x))"
    by (simp add: step_config)
  from Cons.IH [OF this] Cons.prems(2) show ?case by (simp add: step_config)
qed

lemma step_cooldown:
  assumes lt: "last_trade_time s symb = Some t0"
    and win: "within_cooldown (cooldown_minutes (config s)) t0 x"
  shows "last_trade_time (step s x) symb = Some t0 \<and> trades_for symb (step s x) = trades_for symb s"
proof (cases x)
  case (HandleAlert alert w r)
  obtain s' w' exc where h: "handle_alert s w r alert = (s', w', exc)"
    by (cases "handle_alert s w r alert") auto
  from win HandleAlert
  have w: "minutes_between (t_cooldown r) t0 < real_of_int (cooldown_minutes (config s))"
    by simp
  from handle_alert_state [OF h] lt w
  have "last_trade_time s' symb = Some t0 \<and> trades_for symb s' = trades_for symb s"
    by (auto simp: recorded_def trades_for_def)
  with h HandleAlert show ?thesis by simp
qed (use lt in \<open>simp_all add: get_daily_stats_def start_def stop_def trades_for_def Let_def\<close>)

lemma run_cooldown:
  "last_trade_time s symb = Some t0 \<Longrightarrow>
   \<forall>x\<in>set ops. within_cooldown (cooldown_minutes (config s)) t0 x \<Longrightarrow>
   trades_for symb (run s ops) = trades_for symb s"
proof (induction ops arbitrary: s)
  case Nil
  then show ?case by simp
next
  case (Cons x ops)
  from Cons.prems have w: "within_cooldown (cooldown_minutes (config s)) t0 x" by simp
  note st = step_cooldown [OF Cons.prems(1) w]
  from Cons.prems(2)
  have "\<forall>y\<in>set ops. within_cooldown (cooldown_minutes (config (step s x))) t0 y"
    by (simp add: step_config)
  from Cons.IH [OF conjunct1 [OF st] this] st show ?case by simp
qed

lemma apply_and_record_full:
  assumes "apply_and_record s w r symb pos ex0 = (s', w', exc)"
  shows "\<exists>ex. s' = s\<lparr>trade_history := trade_history s @ [ex],
                       daily_trade_count := daily_trade_count s + 1,
                       last_trade_time := (last_trade_time s)(symb \<mapsto> t_stamp r)\<rparr> \<and>
              te_symbol ex = te_symbol ex0 \<and>
              (case on_trade s of
                 None \<Rightarrow> trade_notifications w' = trade_notifications w \<and> exc = None
               | Some cb \<Rightarrow> trade_notifications w' = trade_notifications w @ [ex] \<and>
                            exc = map_option CallbackError (cb ex)) \<and>
              (\<forall>sy m. w_log w' = w_log w @ [TradeFailed sy m] \<longrightarrow>
                 sy = symb \<and> \<not> dry_run (config s) \<and> success ex = False \<and> error ex = Some m)"
proof (cases "dry_run (config s)")
  case True
  with assms show ?thesis
    by (auto simp: apply_and_record_def dest!: record_trade_result split: option.splits)
next
  case False
  obtain w1 res where e: "execute_real_trade s w r symb pos (te_action ex0)
      (te_quantity ex0) (te_price ex0) = (w1, res)"
    by (cases "execute_real_trade s w r symb pos (te_action ex0) (te_quantity ex0) (te_price ex0)")
       auto
  note ww = execute_real_trade_world [OF e]
  show ?thesis
  proof (cases res)
    case None
    with assms False e ww show ?thesis
      by (auto simp: apply_and_record_def dest!: record_trade_result split: option.splits)
  next
    case (Some msg)
    with assms False e ww show ?thesis
      by (auto simp: apply_and_record_def dest!: record_trade_result split: option.splits)
  qed
qed

lemma execute_trade_full:
  assumes "execute_trade s w r symb act reason aty price q = (s', w', exc)"
  shows "(s' = reset_daily_limits s (t_reset r) \<and>
          trade_notifications w' = trade_notifications w \<and>
          (\<forall>sy m. w_log w' \<noteq> w_log w @ [TradeFailed sy m])) \<or>
         (\<exists>ex. s' = recorded s r symb ex \<and> te_symbol ex = symb \<and>
              (case on_trade s of
                 None \<Rightarrow> trade_notifications w' = trade_notifications w \<and> exc = None
               | Some cb \<Rightarrow> trade_notifications w' = trade_notifications w @ [ex] \<and>
                            exc = map_option CallbackError (cb ex)) \<and>
              (\<forall>sy m. w_log w' = w_log w @ [TradeFailed sy m] \<longrightarrow>
                 sy = symb \<and> \<not> dry_run (config s) \<and> success ex = False \<and> error ex = Some m))"
proof (cases "can_trade s symb (t_reset r) (t_cooldown r)")
  case (fields s1 ok msg)
  then have s1: "s1 = reset_daily_limits s (t_reset r)" by (rule can_trade_state)
  show ?thesis
  proof (cases ok)
    case False
    with assms fields s1 show ?thesis by (auto simp: execute_trade_def)
  next
    case True
    from fields True have ct: "can_trade s symb (t_reset r) (t_cooldown r) = (s1, True, msg)"
      by simp
    from assms ct show ?thesis
      unfolding execute_trade_def
      apply (simp add: Let_def split: if_splits sum.splits)
      using s1 by (auto simp: recorded_def dest!: apply_and_record_full)
  qed
qed

lemma handle_alert_full:
  assumes "handle_alert s w r alert = (s', w', exc)"
  shows "(trade_history s' = trade_history s \<and>
          trade_notifications w' = trade_notifications w \<and>
          (\<forall>sy m. w_log w' \<noteq> w_log w @ [TradeFailed sy m])) \<or>
         (\<exists>ex. s' = recorded s r (te_symbol ex) ex \<and>
              (case on_trade s of
                 None \<Rightarrow> trade_notifications w' = trade_notifications w \<and> exc = None
               | Some cb \<Rightarrow> trade_notifications w' = trade_notifications w @ [ex] \<and>
                            exc = map_option CallbackError (cb ex)) \<and>
              (\<forall>sy m. w_log w' = w_log w @ [TradeFailed sy m] \<longrightarrow>
                 sy = te_symbol ex \<and> \<not> dry_run (config s) \<and> success ex = False \<and>
                 error ex = Some m))"
  using handle_alert_dispatch [OF assms]
proof (elim disjE exE conjE)
  fix symb act reason price q
  assume "(s', w', exc) = execute_trade s w r symb act reason (Some (alert_type alert)) price q"
  from execute_trade_full [OF this [symmetric]] show ?thesis
    by (elim disjE exE conjE) (simp, blast)
qed auto

lemma recorded_fields:
  "trade_history (recorded s r symb ex) = trade_history s @ [ex]"
  "daily_trade_count (recorded s r symb ex) =
     daily_trade_count (reset_daily_limits s (t_reset r)) + 1"
  "last_trade_time (recorded s r symb ex) symb = Some (t_stamp r)"
  "config (recorded s r symb ex) = config s"
  by (simp_all add: recorded_def)




subsection \<open>Evaluating the sample runs\<close>

lemma upper_AAPL: "upper ''AAPL'' = ''AAPL''"
  by (simp add: upper_def upper_char_def char_of_def bit_iff_odd)

lemmas scenario_defs =
  handle_alert_def handle_risk_threshold_def handle_stop_loss_def should_act_def data_get_def
  execute_trade_def resolve_quantity_def apply_and_record_def execute_real_trade_def
  record_trade_def can_trade_def reset_daily_limits_def float_quantity_def
  minutes_between_def date_of_def Let_def upper_AAPL
  start_def init_rebalancer_def default_config_def
  sample_rebalancer_def live_rebalancer_def raising_rebalancer_def live_config_def
  sample_world_def failing_world_def held_row_def risk_alert_def stop_loss_alert_def
  reads_at_def five_minutes_def next_day_def

subsection \<open>The quantity of a full exit\<close>

text \<open>
  Claim C1: for every SELL_ALL trade resolved by the execution path on a symbol with a
  held position, the quantity of the recorded execution is the full held quantity.
  The code does not do this. After the quantity is set to the held quantity, the step
  \<^verbatim>\<open># Apply max single trade limit\<close> takes its minimum with the share
  \<open>max_single_trade_pct\<close> of the holding, for SELL_ALL as for SELL. With the default
  configuration (25%) and 100 shares held, both a RISK_THRESHOLD alert and a stop-loss
  alert at a loss of 33% record a SELL_ALL of 25 shares.
\<close>

theorem sell_all_records_capped_quantity:
  "pos_quantity held_row = Some 100 \<and>
   map (\<lambda>e. (te_action e, te_quantity e))
     (trade_history (fst (handle_alert sample_rebalancer sample_world (reads_at 0) risk_alert)))
     = [(SELL_ALL, 25)] \<and>
   map (\<lambda>e. (te_action e, te_quantity e))
     (trade_history
        (fst (handle_alert sample_rebalancer sample_world (reads_at 0) stop_loss_alert)))
     = [(SELL_ALL, 25)]"
  by (simp add: scenario_defs)

theorem sell_all_records_capped_quantity_witness:
  "\<exists>e. trade_history
          (fst (handle_alert sample_rebalancer sample_world (reads_at 0) risk_alert)) = [e] \<and>
       te_action e = SELL_ALL \<and> te_quantity e = 25 \<and>
       Some (te_quantity e) \<noteq> pos_quantity held_row"
  using sell_all_records_capped_quantity
  by (auto simp: map_eq_Cons_conv)

subsection \<open>The daily cap\<close>

text \<open>
  Claim C5: across any sequence of alerts handled within one calendar day at most
  \<open>max_daily_trades\<close> executions are recorded, and the counter is reset to 0 by the first
  throttle check or statistics query after the date has passed the stored reset date.

  First part: take a fresh rebalancer whose cap is not negative and any run of
  operations whose clock is well behaved (\<open>clock_ok\<close>: limit checks in time order, no alert
  handled across midnight). Then for every day \<open>d\<close> the history holds at most
  \<open>max_daily_trades\<close> records dated \<open>d\<close>. Second part: in any state, a throttle check or a
  statistics query that reads a date after the reset date leaves the counter at 0 and
  the reset date at the date read.
\<close>

theorem daily_cap_and_reset:
  "(0 \<le> max_daily_trades (config (init_rebalancer acc cfg cb t0)) \<and> clock_ok t0 ops \<longrightarrow>
      (\<forall>d. int (trades_on d (run (init_rebalancer acc cfg cb t0) ops))
            \<le> max_daily_trades (config (init_rebalancer acc cfg cb t0)))) \<and>
   (last_reset_date s < date_of now \<longrightarrow>
      daily_trade_count (fst (can_trade s symb now now')) = 0 \<and>
      last_reset_date (fst (can_trade s symb now now')) = date_of now \<and>
      daily_trade_count (fst (get_daily_stats s now now_at)) = 0 \<and>
      last_reset_date (fst (get_daily_stats s now now_at)) = date_of now)"
proof (intro conjI impI)
  let ?s0 = "init_rebalancer acc cfg cb t0"
  assume h: "0 \<le> max_daily_trades (config ?s0) \<and> clock_ok t0 ops"
  have l: "last_reset_date ?s0 \<le> date_of t0"
    by (simp add: init_rebalancer_def)
  from h have "daily_invariant (run ?s0 ops)"
    using run_invariant [OF init_invariant _ l] by blast
  then show "\<forall>d. int (trades_on d (run ?s0 ops)) \<le> max_daily_trades (config ?s0)"
    by (simp add: daily_invariant_def run_config)
next
  assume d: "last_reset_date s < date_of now"
  obtain s1 ok msg where c: "can_trade s symb now now' = (s1, ok, msg)"
    by (cases "can_trade s symb now now'") auto
  from can_trade_state [OF c] c d
  show "daily_trade_count (fst (can_trade s symb now now')) = 0"
    and "last_reset_date (fst (can_trade s symb now now')) = date_of now"
    by (simp_all add: reset_daily_limits_def)
  from d show "daily_trade_count (fst (get_daily_stats s now now_at)) = 0"
    and "last_reset_date (fst (get_daily_stats s now now_at)) = date_of now"
    by (simp_all add: get_daily_stats_def reset_daily_limits_def Let_def)
qed

theorem daily_cap_and_reset_witness:
  "0 \<le> max_daily_trades (config (init_rebalancer ''demo'' None None 0)) \<and>
   clock_ok 0 sample_day \<and>
   (\<forall>d. int (trades_on d (run (init_rebalancer ''demo'' None None 0) sample_day)) \<le> 10) \<and>
   last_reset_date sample_rebalancer < date_of next_day \<and>
   daily_trade_count (fst (can_trade sample_rebalancer ''AAPL'' next_day next_day)) = 0 \<and>
   daily_trade_count (fst (get_daily_stats sample_rebalancer next_day (\<lambda>i. next_day))) = 0"
proof -
  have m: "max_daily_trades (config (init_rebalancer ''demo'' None None 0)) = 10"
    by (simp add: init_rebalancer_def default_config_def)
  have c: "clock_ok 0 sample_day"
    by (simp add: sample_day_def reads_at_def five_minutes_def date_of_def)
  have d: "last_reset_date sample_rebalancer < date_of next_day"
    by (simp add: sample_rebalancer_def start_def init_rebalancer_def next_day_def date_of_def)
  show ?thesis
    using m c d
      daily_cap_and_reset [of "''demo''" None None 0 sample_day sample_rebalancer next_day
        "''AAPL''" next_day "\<lambda>i. next_day"]
    by simp
qed

subsection \<open>The cooldown\<close>

text \<open>
  Claim C6: after a trade on a symbol, no second execution is recorded for that symbol
  across any sequence of alerts handled within the cooldown window; in particular two
  stop-loss alerts five minutes apart with a cooldown of 15 minutes yield exactly one
  execution, the second alert being rejected as throttled.

  First part: if a call of \<open>handle_alert\<close> adds a record for \<open>symb\<close> (it adds exactly
  one), then after any run of operations whose alerts test the cooldown less than
  \<open>cooldown_minutes\<close> after that call's stamp, the records for \<open>symb\<close> are still the
  same. Second part: the scenario on the sample data, where the first alert records one
  execution and the second, five minutes later, leaves the history as it is and logs
  that the cooldown has 10 minutes left.
\<close>

theorem cooldown_blocks_second_trade:
  "(handle_alert s w r alert = (s1, w1, e1) \<and>
    trades_for symb s1 \<noteq> trades_for symb s \<and>
    (\<forall>x\<in>set ops. within_cooldown (cooldown_minutes (config s)) (t_stamp r) x) \<longrightarrow>
      length (trades_for symb s1) = length (trades_for symb s) + 1 \<and>
      trades_for symb (run s1 ops) = trades_for symb s1) \<and>
   cooldown_minutes (config sample_rebalancer) = 15 \<and>
   (case handle_alert sample_rebalancer sample_world (reads_at 0) stop_loss_alert of
      (s2, w2, e2) \<Rightarrow>
        length (trade_history s2) = 1 \<and> e2 = None \<and>
        (case handle_alert s2 sample_world (reads_at five_minutes) stop_loss_alert of
           (s3, w3, e3) \<Rightarrow>
             trade_history s3 = trade_history s2 \<and> e3 = None \<and>
             w_log w3 = [CannotTrade ''AAPL'' (CooldownActive 10)]))"
proof (intro conjI impI)
  assume a: "handle_alert s w r alert = (s1, w1, e1) \<and>
    trades_for symb s1 \<noteq> trades_for symb s \<and>
    (\<forall>x\<in>set ops. within_cooldown (cooldown_minutes (config s)) (t_stamp r) x)"
  then have h: "handle_alert s w r alert = (s1, w1, e1)"
    and ch: "trades_for symb s1 \<noteq> trades_for symb s"
    and win: "\<forall>x\<in>set ops. within_cooldown (cooldown_minutes (config s)) (t_stamp r) x"
    by simp_all
  have "\<exists>ex. s1 = recorded s r symb ex \<and> te_symbol ex = symb"
  proof -
    from handle_alert_state [OF h]
    consider "s1 = s" | "s1 = reset_daily_limits s (t_reset r)"
      | symb' ex where "s1 = recorded s r symb' ex" "te_symbol ex = symb'"
      by blast
    then show ?thesis
    proof cases
      case 1
      with ch show ?thesis by simp
    next
      case 2
      with ch show ?thesis by (simp add: trades_for_def)
    next
      case 3
      with ch have "symb' = symb"
        by (auto simp: trades_for_def recorded_def split: if_splits)
      with 3 show ?thesis by blast
    qed
  qed
  then obtain ex where s1: "s1 = recorded s r symb ex" and ex: "te_symbol ex = symb"
    by blast
  from s1 ex show "length (trades_for symb s1) = length (trades_for symb s) + 1"
    by (simp add: trades_for_def recorded_def)
  have lt: "last_trade_time s1 symb = Some (t_stamp r)" and cf: "config s1 = config s"
    using s1 by (simp_all add: recorded_def)
  from run_cooldown [OF lt] win cf
  show "trades_for symb (run s1 ops) = trades_for symb s1" by simp
next
  show "cooldown_minutes (config sample_rebalancer) = 15"
    by (simp add: scenario_defs)
next
  show "case handle_alert sample_rebalancer sample_world (reads_at 0) stop_loss_alert of
      (s2, w2, e2) \<Rightarrow>
        length (trade_history s2) = 1 \<and> e2 = None \<and>
        (case handle_alert s2 sample_world (reads_at five_minutes) stop_loss_alert of
           (s3, w3, e3) \<Rightarrow>
             trade_history s3 = trade_history s2 \<and> e3 = None \<and>
             w_log w3 = [CannotTrade ''AAPL'' (CooldownActive 10)])"
    by (simp add: scenario_defs)
qed

theorem cooldown_blocks_second_trade_witness:
  "\<exists>s1 w1 e1.
     handle_alert sample_rebalancer sample_world (reads_at 0) stop_loss_alert = (s1, w1, e1) \<and>
     trades_for ''AAPL'' s1 \<noteq> trades_for ''AAPL'' sample_rebalancer \<and>
     (\<forall>x\<in>set [HandleAlert stop_loss_alert sample_world (reads_at five_minutes)].
        within_cooldown (cooldown_minutes (config sample_rebalancer))
          (t_stamp (reads_at 0)) x) \<and>
     length (trades_for ''AAPL'' s1) = 1 \<and>
     trades_for ''AAPL''
       (run s1 [HandleAlert stop_loss_alert sample_world (reads_at five_minutes)])
       = trades_for ''AAPL'' s1"
proof -
  obtain s1 w1 e1 where
    h: "handle_alert sample_rebalancer sample_world (reads_at 0) stop_loss_alert = (s1, w1, e1)"
    by (cases "handle_alert sample_rebalancer sample_world (reads_at 0) stop_loss_alert") auto
  have "case handle_alert sample_rebalancer sample_world (reads_at 0) stop_loss_alert of
          (s, w, e) \<Rightarrow> trades_for ''AAPL'' s \<noteq> []"
    by (simp add: scenario_defs trades_for_def)
  with h have ne: "trades_for ''AAPL'' s1 \<noteq> []" by simp
  have e: "trades_for ''AAPL'' sample_rebalancer = []"
    by (simp add: trades_for_def sample_rebalancer_def start_def init_rebalancer_def)
  have win: "\<forall>x\<in>set [HandleAlert stop_loss_alert sample_world (reads_at five_minutes)].
        within_cooldown (cooldown_minutes (config sample_rebalancer))
          (t_stamp (reads_at 0)) x"
    by (simp add: scenario_defs)
  from ne e have ch: "trades_for ''AAPL'' s1 \<noteq> trades_for ''AAPL'' sample_rebalancer"
    by simp
  from cooldown_blocks_second_trade
         [of sample_rebalancer sample_world "reads_at 0" stop_loss_alert s1 w1 e1 "''AAPL''"
             "[HandleAlert stop_loss_alert sample_world (reads_at five_minutes)]"]
       h ch win e
  have "length (trades_for ''AAPL'' s1) = 1 \<and>
        trades_for ''AAPL''
          (run s1 [HandleAlert stop_loss_alert sample_world (reads_at five_minutes)])
          = trades_for ''AAPL'' s1"
    by simp
  with h ch win show ?thesis by blast
qed

subsection \<open>A trade that cannot be applied\<close>



subsection \<open>A callback that raises\<close>

text \<open>
  Claim C8, as stated: an exception raised by the trade callback does not interrupt the
  pipeline: the record is still appended, the throttle state still updated, and no
  exception reaches the caller of \<open>handle_alert\<close>. The last part fails: the callback is
  called without any handler around it, so what it raises leaves \<open>_execute_trade\<close> and
  \<open>_handle_alert\<close>. On the sample data, with a callback that raises, the call ends with
  that exception.
\<close>

theorem callback_exception_counterexample:
  "snd (snd (handle_alert raising_rebalancer sample_world (reads_at 0) risk_alert))
     = Some (CallbackError ''notify failed'') \<and>
   length (trade_history
             (fst (handle_alert raising_rebalancer sample_world (reads_at 0) risk_alert))) = 1"
  by (simp add: scenario_defs)

text \<open>
  Claim C8, amended: for every trade execution (real or simulated), an exception raised
  by the registered callback comes after the recording and does not undo it: the record
  the callback was called on is appended to the history, the daily counter is
  incremented and the symbol stamped. The exception is not caught: it leaves
  \<open>handle_alert\<close> and reaches its caller.
\<close>

theorem callback_exception_after_recording:
  assumes h: "handle_alert s w r alert = (s', w', exc)"
    and cb: "on_trade s = Some cb"
    and called: "trade_notifications w' = trade_notifications w @ [ex]"
    and raised: "cb ex = Some msg"
  shows "exc = Some (CallbackError msg) \<and>
         trade_history s' = trade_history s @ [ex] \<and>
         daily_trade_count s' = daily_trade_count (reset_daily_limits s (t_reset r)) + 1 \<and>
         last_trade_time s' (te_symbol ex) = Some (t_stamp r)"
  using handle_alert_full [OF h] cb called raised
  by (auto simp: recorded_fields)

theorem callback_exception_after_recording_witness:
  "\<exists>s1 w1 e1 ex.
     handle_alert raising_rebalancer sample_world (reads_at 0) risk_alert = (s1, w1, e1) \<and>
     on_trade raising_rebalancer = Some (\<lambda>t. Some ''notify failed'') \<and>
     trade_notifications w1 = trade_notifications sample_world @ [ex] \<and>
     e1 = Some (CallbackError ''notify failed'') \<and>
     trade_history s1 = trade_history raising_rebalancer @ [ex] \<and>
     daily_trade_count s1 = 1"
proof -
  obtain s1 w1 e1 where
    h: "handle_alert raising_rebalancer sample_world (reads_at 0) risk_alert = (s1, w1, e1)"
    by (cases "handle_alert raising_rebalancer sample_world (reads_at 0) risk_alert") auto
  have "case handle_alert raising_rebalancer sample_world (reads_at 0) risk_alert of
          (s, w, e) \<Rightarrow> \<exists>ex. trade_notifications w = trade_notifications sample_world @ [ex]"
    by (simp add: scenario_defs)
  with h obtain ex where
    n: "trade_notifications w1 = trade_notifications sample_world @ [ex]"
    by auto
  have c: "on_trade raising_rebalancer = Some (\<lambda>t. Some ''notify failed'')"
    by (simp add: raising_rebalancer_def start_def init_rebalancer_def)
  have z: "daily_trade_count (reset_daily_limits raising_rebalancer (t_reset (reads_at 0))) = 0"
    by (simp add: scenario_defs)
  from callback_exception_after_recording [OF h c n, of "''notify failed''"] z
  have "e1 = Some (CallbackError ''notify failed'') \<and>
     trade_history s1 = trade_history raising_rebalancer @ [ex] \<and>
     daily_trade_count s1 = 1"
    by simp
  with h c n show ?thesis by blast
qed

subsection \<open>The counter and the trades remaining\<close>

text \<open>
  Claim C10: after every operation of the rebalancer the daily counter does not exceed
  \<open>max_daily_trades\<close> (a trade is recorded only after the throttle check has found the
  counter strictly below the cap), so the \<open>trades_remaining\<close> figure of the statistics
  is never negative.

  For a fresh rebalancer whose cap is not negative and any run of operations, whatever
  the clock reads: the counter is at most the cap, and a statistics query made then
  reports a \<open>trades_remaining\<close> of at least 0.
\<close>

theorem counter_within_cap:
  assumes "0 \<le> max_daily_trades (config (init_rebalancer acc cfg cb t0))"
  shows "daily_trade_count (run (init_rebalancer acc cfg cb t0) ops)
           \<le> max_daily_trades (config (run (init_rebalancer acc cfg cb t0) ops)) \<and>
         0 \<le> trades_remaining
               (snd (get_daily_stats (run (init_rebalancer acc cfg cb t0) ops) now now_at))"
proof -
  let ?s0 = "init_rebalancer acc cfg cb t0"
  have "daily_trade_count ?s0 \<le> max_daily_trades (config ?s0)"
    using assms by (simp add: init_rebalancer_def)
  from run_count_le [OF this assms]
  have le: "daily_trade_count (run ?s0 ops) \<le> max_daily_trades (config (run ?s0 ops))"
    by (simp add: run_config)
  from assms have pos: "0 \<le> max_daily_trades (config (run ?s0 ops))"
    by (simp add: run_config)
  from reset_count_le [OF le pos, of now]
  have "0 \<le> trades_remaining (snd (get_daily_stats (run ?s0 ops) now now_at))"
    by (simp add: get_daily_stats_def Let_def)
  with le show ?thesis by simp
qed

theorem counter_within_cap_witness:
  "0 \<le> max_daily_trades (config (init_rebalancer ''demo'' None None 0)) \<and>
   daily_trade_count (run (init_rebalancer ''demo'' None None 0) sample_day) \<le> 10 \<and>
   0 \<le> trades_remaining
         (snd (get_daily_stats (run (init_rebalancer ''demo'' None None 0) sample_day)
                 next_day (\<lambda>i. next_day)))"
proof -
  have m: "max_daily_trades (config (init_rebalancer ''demo'' None None 0)) = 10"
    by (simp add: init_rebalancer_def default_config_def)
  have p: "0 \<le> max_daily_trades (config (init_rebalancer ''demo'' None None 0))"
    by (simp add: m)
  show ?thesis
    using p counter_within_cap [OF p, of sample_day next_day "\<lambda>i. next_day"]
    by (simp add: run_config m)
qed

end
